theory Spec2Isabelle
  imports Complex_Main "HOL-Library.AList" "HOL-Library.Log_Nat"
begin

section \<open>JavaScript values used by the cart and product-detail blocks\<close>

text \<open>
  A JavaScript number is a double or \<open>NaN\<close>: \<open>Num r\<close> stands for the double whose value is
  the rational \<open>r\<close>. An arithmetic operation rounds its exact result to the nearest double,
  ties to even (\<open>to_double\<close>, with the 53-bit significand and the subnormal range of
  binary64). \<open>NaN\<close> propagates through \<open>+\<close> and \<open>*\<close>, every comparison with \<open>NaN\<close> is false,
  also \<open>NaN == NaN\<close>, and \<open>0\<close> and \<open>NaN\<close> are the falsy numbers. The infinities (magnitudes
  beyond the largest double) and the sign of zero are not modelled.
\<close>

datatype jsnum = Num rat | NaN

definition pow2 :: "int \<Rightarrow> rat" where
  "pow2 k = (if 0 \<le> k then 2 ^ nat k else 1 / 2 ^ nat (- k))"

text \<open>The binary exponent of a positive rational: \<open>pow2 e \<le> r < pow2 (e + 1)\<close>.\<close>

definition floor_log2 :: "rat \<Rightarrow> int" where
  "floor_log2 r =
     (let n = bitlen (fst (quotient_of r)) - bitlen (snd (quotient_of r))
      in if pow2 n \<le> r then n else n - 1)"

definition round_half_even :: "rat \<Rightarrow> int" where
  "round_half_even x =
     (let f = \<lfloor>x\<rfloor>; d = x - of_int f
      in if d < 1 / 2 then f else if 1 / 2 < d then f + 1 else if even f then f else f + 1)"

definition to_double :: "rat \<Rightarrow> rat" where
  "to_double r =
     (if r = 0 then 0
      else (let m = \<bar>r\<bar>; e = max (floor_log2 m) (- 1022); q = pow2 (e - 52)
            in (if r < 0 then - 1 else 1) * of_int (round_half_even (m / q)) * q))"

fun js_add :: "jsnum \<Rightarrow> jsnum \<Rightarrow> jsnum" where
  "js_add (Num a) (Num b) = Num (to_double (a + b))"
| "js_add _ _ = NaN"

fun js_mul :: "jsnum \<Rightarrow> jsnum \<Rightarrow> jsnum" where
  "js_mul (Num a) (Num b) = Num (to_double (a * b))"
| "js_mul _ _ = NaN"

fun js_lt :: "jsnum \<Rightarrow> jsnum \<Rightarrow> bool" where
  "js_lt (Num a) (Num b) = (a < b)"
| "js_lt _ _ = False"


fun truthy_num :: "jsnum \<Rightarrow> bool" where
  "truthy_num (Num a) = (a \<noteq> 0)"
| "truthy_num NaN = False"

text \<open>\<open>x || 0\<close> on a number.\<close>

definition or_zero :: "jsnum \<Rightarrow> jsnum" where
  "or_zero x = (if truthy_num x then x else Num 0)"

text \<open>
  A string is a list of 8-bit characters, read as the code units \<open>U+0000\<close> to \<open>U+00FF\<close>
  (Basic Latin and Latin-1 Supplement). On these, the white space that \<open>trim\<close> and
  \<open>parseInt\<close> skip is tab, line feed, vertical tab, form feed, carriage return, space and
  the no-break space \<open>U+00A0\<close>; \<open>toLowerCase\<close> lowers \<open>A\<close> to \<open>Z\<close>, \<open>U+00C0\<close> to \<open>U+00D6\<close> and
  \<open>U+00D8\<close> to \<open>U+00DE\<close>, each by adding 32. \<open>upper_char\<close> is \<open>toUpperCase\<close> on the
  characters the pattern \<open>\w\<close> matches, to which alone the code applies it.
\<close>

definition is_ws :: "char \<Rightarrow> bool" where
  "is_ws c =
     (c \<in> set [CHR 0x09, CHR 0x0A, CHR 0x0B, CHR 0x0C, CHR 0x0D, CHR '' '', CHR 0xA0])"

definition trim :: "string \<Rightarrow> string" where
  "trim s = rev (dropWhile is_ws (rev (dropWhile is_ws s)))"

definition lower_char :: "char \<Rightarrow> char" where
  "lower_char c =
     (let n = (of_char c :: nat)
      in if (65 \<le> n \<and> n \<le> 90) \<or> (192 \<le> n \<and> n \<le> 214) \<or> (216 \<le> n \<and> n \<le> 222)
         then char_of (n + 32) else c)"

definition upper_char :: "char \<Rightarrow> char" where
  "upper_char c = (let n = (of_char c :: nat) in if 97 \<le> n \<and> n \<le> 122 then char_of (n - 32) else c)"

definition toLowerCase :: "string \<Rightarrow> string" where
  "toLowerCase s = map lower_char s"

text \<open>A string is truthy when it is not empty; an absent (undefined or null) field is falsy.\<close>

fun truthy :: "string option \<Rightarrow> bool" where
  "truthy None = False"
| "truthy (Some s) = (s \<noteq> [])"

subsection \<open>\<open>parseInt(x, 10)\<close>\<close>

text \<open>
  \<open>parseInt\<close> converts its argument to a string, skips leading white space, reads an
  optional sign and then the longest prefix of decimal digits; with no digit the result is
  \<open>NaN\<close>, otherwise the double nearest to the integer the digits denote. Whatever follows
  the digits is ignored. The argument of \<open>updateQuantity\<close> is the text of the quantity
  input (\<open>e.target.value\<close>) or an integer; \<open>JInt n\<close> stands for an integer-valued number
  whose string form is its decimal numeral (magnitude below \<open>10^21\<close>).
\<close>

datatype jsval = JStr string | JInt int

definition is_digit :: "char \<Rightarrow> bool" where
  "is_digit c = (let n = (of_char c :: nat) in 48 \<le> n \<and> n \<le> 57)"

definition digit_val :: "char \<Rightarrow> nat" where
  "digit_val c = (of_char c :: nat) - 48"

definition digits_val :: "string \<Rightarrow> int" where
  "digits_val z = foldl (\<lambda>acc c. 10 * acc + int (digit_val c)) 0 z"

function digits_of :: "nat \<Rightarrow> string" where
  "digits_of n = (if n < 10 then [''0123456789'' ! n] else digits_of (n div 10) @ [''0123456789'' ! (n mod 10)])"
  by pat_completeness auto
termination
  by (relation "measure (\<lambda>n. n)") auto

fun ToString :: "jsval \<Rightarrow> string" where
  "ToString (JStr s) = s"
| "ToString (JInt n) = (if n < 0 then CHR ''-'' # digits_of (nat (- n)) else digits_of (nat n))"

definition parseInt :: "jsval \<Rightarrow> jsnum" where
  "parseInt x =
     (let S = dropWhile is_ws (ToString x);
          sign = (if S \<noteq> [] \<and> hd S = CHR ''-'' then - 1 else (1 :: int));
          S' = (if S \<noteq> [] \<and> (hd S = CHR ''+'' \<or> hd S = CHR ''-'') then tl S else S);
          Z = takeWhile is_digit S'
      in if Z = [] then NaN else Num (to_double (of_int (sign * digits_val Z))))"

section \<open>The cart and the shared data layer\<close>

text \<open>
  A line item and the cart, with the fields the blocks read and write. \<open>products\<close> is the
  object keyed by product id, kept as an association list in the order \<open>Object.values\<close>
  and \<open>Object.keys\<close> enumerate it; a line item is an object, so a present entry is truthy.
\<close>

record line_item =
  li_id :: string
  li_name :: "string option"
  li_image :: "string option"
  li_category :: "string option"
  li_quantity :: jsnum
  li_price :: jsnum
  li_subTotal :: jsnum
  li_total :: jsnum

record cart =
  productCount :: jsnum
  products :: "(string \<times> line_item) list"
  subTotal :: jsnum
  total :: jsnum

text \<open>The object \<open>buildProductDetail\<close> sends to the data layer under the key \<open>product\<close>.\<close>

record productData =
  pd_id :: string
  pd_sku :: string
  pd_name :: string
  pd_price :: jsnum
  pd_category :: string
  pd_description :: string
  pd_image :: string
  pd_thumbnail :: string

text \<open>
  Modelled from the spec: the shared data layer (\<open>window.getDataLayerProperty\<close> and
  \<open>window.updateDataLayer\<close>), which is not part of the two blocks. It exposes
  \<open>get(key)\<close> and \<open>update(partial, merge)\<close>; \<open>getDataLayerProperty\<close> hands out a copy the
  caller may mutate; with \<open>merge = false\<close> the named top-level key is replaced, otherwise
  the partial object is merged deeply into the stored one, so that an entry of the stored
  cart that the new cart lacks survives.
\<close>

record dataLayer =
  dl_cart :: "cart option"
  dl_product :: "productData option"

datatype partial = PartialCart cart | PartialProduct productData

definition getDataLayerProperty_cart :: "dataLayer \<Rightarrow> cart option" where
  "getDataLayerProperty_cart dl = dl_cart dl"

definition deep_merge_cart :: "cart option \<Rightarrow> cart \<Rightarrow> cart" where
  "deep_merge_cart old new =
     (case old of
        None \<Rightarrow> new
      | Some c \<Rightarrow> new\<lparr>products := foldl (\<lambda>acc (k, v). AList.update k v acc) (products c) (products new)\<rparr>)"

fun updateDataLayer :: "partial \<Rightarrow> bool option \<Rightarrow> dataLayer \<Rightarrow> dataLayer" where
  "updateDataLayer (PartialCart c) (Some False) dl = dl\<lparr>dl_cart := Some c\<rparr>"
| "updateDataLayer (PartialCart c) _ dl = dl\<lparr>dl_cart := Some (deep_merge_cart (dl_cart dl) c)\<rparr>"
| "updateDataLayer (PartialProduct p) _ dl = dl\<lparr>dl_product := Some p\<rparr>"

section \<open>The cart block (\<open>blocks/cart/cart.js\<close>)\<close>

text \<open>
  The part of the page the cart handlers touch. An element that \<open>querySelector\<close> may not
  find is an option (\<open>None\<close>: not in the block). A price or total cell holds the amount
  handed to \<open>formatPrice\<close>. \<open>trace\<close> records, in order, the calls that write the store or
  redraw a region. \<open>querySelector_other\<close> is the answer of the browser's selector engine to
  \<open>[data-product-id="..."]\<close> for a product id that does not leave the selector in this
  form (see \<open>selector_plain\<close>): a \<open>SyntaxError\<close>, or the position among the item rows of
  the element it selects (\<open>None\<close>: no element, or none with a price cell among the rows).
\<close>

datatype picture =
    DirectImg string string bool
  | OptimizedPicture string string bool "(string option \<times> string) list"

record cart_row =
  row_product_id :: string
  row_image :: "picture option"
  row_name :: string
  row_qty :: jsnum
  row_price :: jsnum

datatype items_view = NoContent | EmptyCart | ItemRows "cart_row list"

datatype call =
    Call_updateDataLayer partial "bool option"
  | Call_renderCartItems cart
  | Call_updateCartTotals cart
  | Call_console_error
  | Call_console_warn

datatype js_error = TypeError | FetchError | SyntaxError

record cart_block =
  dataLayer :: dataLayer
  updateDataLayer_defined :: bool
  cart_items_el :: "items_view option"
  cart_summary_display :: "string option"
  cart_main_empty_state :: "bool option"
  cart_content_is_empty :: "bool option"
  cart_subtotal_value_el :: "jsnum option"
  cart_total_value_el :: "jsnum option"
  cart_product_count_el :: "jsnum option"
  querySelector_other :: "string \<Rightarrow> js_error + nat option"
  trace :: "call list"

definition default_cart :: cart where
  "default_cart = \<lparr>productCount = Num 0, products = [], subTotal = Num 0, total = Num 0\<rparr>"

definition updateCartTotals :: "cart \<Rightarrow> cart_block \<Rightarrow> cart_block" where
  "updateCartTotals cartData s =
     s\<lparr>cart_subtotal_value_el := map_option (\<lambda>_. or_zero (subTotal cartData)) (cart_subtotal_value_el s),
       cart_total_value_el := map_option (\<lambda>_. or_zero (total cartData)) (cart_total_value_el s),
       cart_product_count_el := map_option (\<lambda>_. or_zero (productCount cartData)) (cart_product_count_el s),
       trace := trace s @ [Call_updateCartTotals cartData]\<rparr>"

text \<open>\<open>name.split(",")[0].trim()\<close>, the display name of a product.\<close>

definition display_name :: "string option \<Rightarrow> string" where
  "display_name name = (if truthy name then trim (takeWhile (\<lambda>c. c \<noteq> CHR '','') (the name)) else [])"

definition alt_text :: "string option \<Rightarrow> string" where
  "alt_text name = (if truthy name then the name else ''Product image'')"

definition startsWith_http :: "string \<Rightarrow> bool" where
  "startsWith_http s = (take 4 s = ''http'')"

definition buildCartItem :: "line_item \<Rightarrow> cart_row" where
  "buildCartItem product =
     \<lparr>row_product_id = li_id product,
      row_image =
        (if truthy (li_image product) then
           (let img = the (li_image product) in
            if startsWith_http img then Some (DirectImg img (alt_text (li_name product)) False)
            else Some (OptimizedPicture img (alt_text (li_name product)) False [(None, ''200'')]))
         else None),
      row_name = display_name (li_name product),
      row_qty = li_quantity product,
      row_price =
        (if truthy_num (li_subTotal product) then li_subTotal product
         else js_mul (li_price product) (li_quantity product))\<rparr>"

definition renderCartItems :: "cart \<Rightarrow> cart_block \<Rightarrow> cart_block" where
  "renderCartItems cartData s =
     (let s1 = s\<lparr>trace := trace s @ [Call_renderCartItems cartData]\<rparr> in
      case cart_items_el s of
        None \<Rightarrow> s1\<lparr>trace := trace s1 @ [Call_console_error]\<rparr>
      | Some _ \<Rightarrow>
          (let productValues = map snd (products cartData);
               isEmpty = (length productValues = 0)
           in s1\<lparr>cart_summary_display :=
                    map_option (\<lambda>_. if isEmpty then ''none'' else ''block'') (cart_summary_display s),
                  cart_main_empty_state := map_option (\<lambda>_. isEmpty) (cart_main_empty_state s),
                  cart_content_is_empty := map_option (\<lambda>_. isEmpty) (cart_content_is_empty s),
                  cart_items_el :=
                    Some (if isEmpty then EmptyCart else ItemRows (map buildCartItem productValues))\<rparr>))"

definition current_cart :: "cart_block \<Rightarrow> cart" where
  "current_cart s =
     (case getDataLayerProperty_cart (dataLayer s) of Some c \<Rightarrow> c | None \<Rightarrow> default_cart)"

text \<open>
  Reading \<open>currentCart.products[productId]\<close>. \<open>products\<close> is an ordinary object (an object
  literal, or one parsed from JSON), so a name that is not one of its own keys is looked
  up in \<open>Object.prototype\<close>: the names below are the properties that every such object
  inherits, and each reads as a function or an object, which is truthy. An own key reads
  as its line item, an object, hence truthy as well; every other name reads as
  \<open>undefined\<close>.
\<close>

definition Object_prototype_names :: "string list" where
  "Object_prototype_names =
     [''constructor'', ''__defineGetter__'', ''__defineSetter__'', ''hasOwnProperty'',
      ''__lookupGetter__'', ''__lookupSetter__'', ''isPrototypeOf'', ''propertyIsEnumerable'',
      ''toString'', ''valueOf'', ''__proto__'', ''toLocaleString'']"

definition has_truthy_property :: "(string \<times> line_item) list \<Rightarrow> string \<Rightarrow> bool" where
  "has_truthy_property ps productId =
     (case map_of ps productId of
        Some item \<Rightarrow> True
      | None \<Rightarrow> productId \<in> set Object_prototype_names)"

text \<open>The block \<open>// Recalculate totals\<close>, written out in both handlers.\<close>

definition recalculate_totals :: "cart \<Rightarrow> cart" where
  "recalculate_totals currentCart =
     (let productValues = map snd (products currentCart);
          c1 = currentCart\<lparr>productCount := foldl (\<lambda>sum p. js_add sum (li_quantity p)) (Num 0) productValues\<rparr>;
          c2 = c1\<lparr>subTotal := foldl (\<lambda>sum p. js_add sum (li_subTotal p)) (Num 0) productValues\<rparr>
      in c2\<lparr>total := subTotal c2\<rparr>)"

text \<open>
  \<open>delete\<close> removes an own key and does nothing for an inherited name, as
  \<open>AList.delete\<close> does.
\<close>

definition removeFromCart :: "string \<Rightarrow> cart_block \<Rightarrow> cart_block" where
  "removeFromCart productId s =
     (let currentCart = current_cart s in
      if has_truthy_property (products currentCart) productId then
        (let currentCart = recalculate_totals
                (currentCart\<lparr>products := AList.delete productId (products currentCart)\<rparr>);
             s1 = (if updateDataLayer_defined s
                   then s\<lparr>dataLayer := updateDataLayer (PartialCart currentCart) (Some False) (dataLayer s),
                          trace := trace s @ [Call_updateDataLayer (PartialCart currentCart) (Some False)]\<rparr>
                   else s\<lparr>trace := trace s @ [Call_console_error]\<rparr>)
         in updateCartTotals currentCart (renderCartItems currentCart s1))
      else s)"

text \<open>
  \<open>block.querySelector('[data-product-id="' + productId + '"]')\<close>. The id is spliced into
  the selector as it is. An id without double quote, backslash, line break (line feed,
  carriage return, form feed) and \<open>U+0000\<close> leaves an attribute selector for exactly that
  value, which finds the first item row carrying the id (the header row and the summary
  have no such attribute). For any other id the selector is a different one or none at
  all, and the engine's answer is \<open>querySelector_other\<close>.
\<close>

definition selector_plain :: "string \<Rightarrow> bool" where
  "selector_plain productId =
     list_all (\<lambda>c. c \<notin> set [CHR 0x22, CHR 0x5C, CHR 0x0A, CHR 0x0D, CHR 0x0C, CHR 0x00]) productId"

fun find_row :: "string \<Rightarrow> cart_row list \<Rightarrow> nat option" where
  "find_row productId [] = None"
| "find_row productId (r # rs) =
     (if row_product_id r = productId then Some 0 else map_option Suc (find_row productId rs))"

definition querySelector_row :: "cart_block \<Rightarrow> string \<Rightarrow> js_error + nat option" where
  "querySelector_row s productId =
     (if selector_plain productId then
        Inr (case cart_items_el s of
               Some (ItemRows rows) \<Rightarrow> find_row productId rows
             | _ \<Rightarrow> None)
      else querySelector_other s productId)"

definition set_price_at :: "nat \<Rightarrow> jsnum \<Rightarrow> items_view option \<Rightarrow> items_view option" where
  "set_price_at i amount el =
     (case el of
        Some (ItemRows rows) \<Rightarrow>
          if i < length rows then Some (ItemRows (rows[i := (rows ! i)\<lparr>row_price := amount\<rparr>])) else el
      | _ \<Rightarrow> el)"

definition update_line_item :: "jsnum \<Rightarrow> line_item \<Rightarrow> line_item" where
  "update_line_item quantity item =
     (let i1 = item\<lparr>li_quantity := quantity\<rparr>;
          i2 = i1\<lparr>li_subTotal := js_mul quantity (li_price i1)\<rparr>
      in i2\<lparr>li_total := li_subTotal i2\<rparr>)"

text \<open>
  \<open>updateQuantity\<close> returns (\<open>Inr\<close>) or throws (\<open>Inl\<close>); either way it leaves a state. The
  call of \<open>window.updateDataLayer\<close> is not guarded and throws a \<open>TypeError\<close> when the
  function is missing, before anything is written; \<open>querySelector\<close> throws after the store
  write and the update of the totals. For an inherited name the three assignments land
  on the inherited function or object, which is no part of the cart and has no \<open>price\<close>:
  the subtotal computed there is \<open>quantity * undefined\<close>, that is \<open>NaN\<close>, the line items
  stay as they are and the cart is recalculated and written all the same.
\<close>

definition updateQuantity ::
  "string \<Rightarrow> jsval \<Rightarrow> cart_block \<Rightarrow> (js_error \<times> cart_block) + cart_block" where
  "updateQuantity productId newQuantity s =
     (let quantity = parseInt newQuantity in
      if js_lt quantity (Num 1) then Inr (removeFromCart productId s)
      else
        (let currentCart = current_cart s in
         if \<not> has_truthy_property (products currentCart) productId then Inr s
         else
           (let products1 =
                  (case map_of (products currentCart) productId of
                     Some item \<Rightarrow>
                       AList.update productId (update_line_item quantity item) (products currentCart)
                   | None \<Rightarrow> products currentCart);
                new_subTotal =
                  (case map_of (products currentCart) productId of
                     Some item \<Rightarrow> li_subTotal (update_line_item quantity item)
                   | None \<Rightarrow> NaN);
                currentCart = recalculate_totals (currentCart\<lparr>products := products1\<rparr>)
            in if \<not> updateDataLayer_defined s then Inl (TypeError, s)
               else
                 (let s1 = s\<lparr>dataLayer := updateDataLayer (PartialCart currentCart) (Some False) (dataLayer s),
                             trace := trace s @ [Call_updateDataLayer (PartialCart currentCart) (Some False)]\<rparr>;
                      s2 = updateCartTotals currentCart s1
                  in case querySelector_row s2 productId of
                       Inl e \<Rightarrow> Inl (e, s2)
                     | Inr None \<Rightarrow> Inr s2
                     | Inr (Some i) \<Rightarrow>
                         Inr (s2\<lparr>cart_items_el := set_price_at i new_subTotal (cart_items_el s2)\<rparr>)))))"

fun state_left :: "(js_error \<times> cart_block) + cart_block \<Rightarrow> cart_block" where
  "state_left (Inl (e, s)) = s"
| "state_left (Inr s) = s"

section \<open>Products from the content API\<close>

text \<open>
  A product record as the GraphQL endpoints return it. An absent (undefined or null) field
  is \<open>None\<close>; for an absent \<open>id\<close>, \<open>p_id_is_null\<close> tells \<open>null\<close> from \<open>undefined\<close>, which the
  comparison with \<open>===\<close> in the product-detail block distinguishes. \<open>category\<close> is a
  sequence of strings; \<open>externalImageURL\<close> is a string or an object with a \<open>plaintext\<close>
  field; \<open>image\<close> and \<open>damImageURL\<close> carry \<open>_authorUrl\<close> and \<open>_publishUrl\<close>.
\<close>

record image_ref =
  authorUrl :: "string option"
  publishUrl :: "string option"

datatype external_image = ExtString string | ExtObject "string option"

record description =
  html :: "string option"
  markdown :: "string option"
  plaintext :: "string option"

record product =
  p_id :: "string option"
  p_id_is_null :: bool
  p_sku :: "string option"
  p_name :: "string option"
  p_price :: "jsnum option"
  p_category :: "string list option"
  p_description :: "description option"
  p_image :: "image_ref option"
  p_externalImageURL :: "external_image option"
  p_damImageURL :: "image_ref option"

subsection \<open>\<open>getProductImageUrl\<close> (the same text in both blocks)\<close>

fun truthy_external :: "external_image \<Rightarrow> bool" where
  "truthy_external (ExtString s) = (s \<noteq> [])"
| "truthy_external (ExtObject _) = True"

definition dam_image_url :: "product \<Rightarrow> bool \<Rightarrow> string option" where
  "dam_image_url item isAuthor =
     (case p_damImageURL item of
        Some damImageURL \<Rightarrow>
          if truthy (authorUrl damImageURL) \<or> truthy (publishUrl damImageURL)
          then (if isAuthor then authorUrl damImageURL else publishUrl damImageURL)
          else None
      | None \<Rightarrow> None)"

definition getProductImageUrl :: "product option \<Rightarrow> bool \<Rightarrow> bool \<Rightarrow> string option" where
  "getProductImageUrl item' isAuthor isLegacy =
     (case item' of
        None \<Rightarrow> None
      | Some item \<Rightarrow>
          if isLegacy then
            (case p_image item of
               Some img \<Rightarrow>
                 if truthy (authorUrl img) \<or> truthy (publishUrl img)
                 then (if isAuthor then authorUrl img else publishUrl img)
                 else None
             | None \<Rightarrow> None)
          else
            (case p_externalImageURL item of
               Some externalImageURL \<Rightarrow>
                 if truthy_external externalImageURL then
                   (let url = (case externalImageURL of ExtString str \<Rightarrow> Some str | ExtObject pt \<Rightarrow> pt)
                    in if truthy url then url else dam_image_url item isAuthor)
                 else dam_image_url item isAuthor
             | None \<Rightarrow> dam_image_url item isAuthor))"

subsection \<open>Category strings\<close>

text \<open>\<open>.replace(/^[^:]+:/, "")\<close>: a non-empty run of non-colon characters and the colon after it.\<close>

definition strip_namespace :: "string \<Rightarrow> string" where
  "strip_namespace s =
     (let ns = takeWhile (\<lambda>c. c \<noteq> CHR '':'') s;
          rest = dropWhile (\<lambda>c. c \<noteq> CHR '':'') s
      in if ns \<noteq> [] \<and> rest \<noteq> [] then tl rest else s)"

definition normalizeProductCat :: "string \<Rightarrow> string" where
  "normalizeProductCat cat = strip_namespace (toLowerCase cat)"

definition normalizeCat :: "string \<Rightarrow> string" where
  "normalizeCat cat = strip_namespace (toLowerCase cat)"

text \<open>\<open>parts = cat.split(":"); parts.length > 1 ? parts[1] : cat\<close>.\<close>

definition second_part :: "string \<Rightarrow> string" where
  "second_part cat =
     (if CHR '':'' \<in> set cat
      then takeWhile (\<lambda>c. c \<noteq> CHR '':'') (tl (dropWhile (\<lambda>c. c \<noteq> CHR '':'') cat))
      else cat)"

fun join :: "string \<Rightarrow> string list \<Rightarrow> string" where
  "join sep [] = []"
| "join sep [x] = x"
| "join sep (x # y # ys) = x @ sep @ join sep (y # ys)"

text \<open>\<open>.replace(/,/g, " /")\<close>.\<close>

definition replace_commas :: "string \<Rightarrow> string" where
  "replace_commas s = concat (map (\<lambda>c. if c = CHR '','' then '' /'' else [c]) s)"

text \<open>
  \<open>.replace(/\b\w/g, (char) => char.toUpperCase())\<close>: a word character (letter, digit or
  underscore) is raised when no word character stands before it.
\<close>

definition is_word :: "char \<Rightarrow> bool" where
  "is_word c =
     (let n = (of_char c :: nat)
      in (48 \<le> n \<and> n \<le> 57) \<or> (65 \<le> n \<and> n \<le> 90) \<or> n = 95 \<or> (97 \<le> n \<and> n \<le> 122))"

fun title_case :: "bool \<Rightarrow> string \<Rightarrow> string" where
  "title_case prev [] = []"
| "title_case prev (c # cs) =
     (if is_word c \<and> \<not> prev then upper_char c else c) # title_case (is_word c) cs"

definition formatCategoryDisplay :: "string list option \<Rightarrow> string" where
  "formatCategoryDisplay category =
     (case category of
        None \<Rightarrow> []
      | Some cats \<Rightarrow>
          if length cats = 0 then []
          else
            (let cleaned = filter (\<lambda>c. c \<noteq> []) (map second_part cats)
             in title_case False (toLowerCase (replace_commas (join '', '' cleaned)))))"

subsection \<open>\<open>buildRecommendationCard\<close>\<close>

record rec_card =
  card_product_id :: string
  card_clickable :: bool
  card_picture :: "picture option"
  card_category :: string
  card_title :: string

record rec_section =
  sec_title :: string
  sec_cards :: "rec_card list"

text \<open>\<open>sku || id || ""\<close>.\<close>

definition sku_or_id_or_empty :: "product \<Rightarrow> string" where
  "sku_or_id_or_empty item =
     (if truthy (p_sku item) then the (p_sku item)
      else if truthy (p_id item) then the (p_id item)
      else [])"

text \<open>
  The card inlines the expression of \<open>formatCategoryDisplay\<close> for its category line; the
  click handler navigates only when the product id is not empty.
\<close>

definition buildRecommendationCard :: "product \<Rightarrow> bool \<Rightarrow> bool \<Rightarrow> rec_card" where
  "buildRecommendationCard item isAuthor isLegacy =
     (let imgUrl = getProductImageUrl (Some item) isAuthor isLegacy;
          productId = sku_or_id_or_empty item
      in \<lparr>card_product_id = productId,
          card_clickable = (productId \<noteq> []),
          card_picture =
            (if truthy imgUrl then
               (if startsWith_http (the imgUrl)
                then Some (DirectImg (the imgUrl) (alt_text (p_name item)) False)
                else Some (OptimizedPicture (the imgUrl) (alt_text (p_name item)) False
                       [(Some ''(min-width: 900px)'', ''600''), (Some ''(min-width: 600px)'', ''400''),
                        (None, ''320'')]))
             else None),
          card_category = formatCategoryDisplay (p_category item),
          card_title = display_name (p_name item)\<rparr>)"

definition recommendations_section :: "product list \<Rightarrow> bool \<Rightarrow> bool \<Rightarrow> rec_section" where
  "recommendations_section recs isAuthor isLegacy =
     \<lparr>sec_title = ''YOU MAY ALSO LIKE'',
      sec_cards = map (\<lambda>product. buildRecommendationCard product isAuthor isLegacy) recs\<rparr>"

subsection \<open>\<open>buildRecommendations\<close> of the cart block\<close>

text \<open>
  \<open>category.split(/[/,]+/)\<close>: the pieces between maximal runs of \<open>/\<close> and \<open>,\<close>, read
  left to right (\<open>in_sep\<close>: the last character was a separator). A JavaScript
  \<open>Set\<close> of strings is a list without repetition in insertion order.
\<close>

definition is_sep :: "char \<Rightarrow> bool" where
  "is_sep c = (c = CHR ''/'' \<or> c = CHR '','')"

fun split_from :: "bool \<Rightarrow> string \<Rightarrow> string \<Rightarrow> string list" where
  "split_from in_sep piece [] = [piece]"
| "split_from in_sep piece (c # cs) =
     (if is_sep c then (if in_sep then split_from True piece cs else piece # split_from True [] cs)
      else split_from False (piece @ [c]) cs)"

definition split_seps :: "string \<Rightarrow> string list" where
  "split_seps s = split_from False [] s"

definition set_add :: "string \<Rightarrow> string list \<Rightarrow> string list" where
  "set_add x xs = (if x \<in> set xs then xs else xs @ [x])"

definition category_parts :: "string \<Rightarrow> string list" where
  "category_parts category =
     filter (\<lambda>c. c \<noteq> []) (map (\<lambda>c. toLowerCase (trim c)) (split_seps category))"

definition cartCategories :: "cart \<Rightarrow> string list" where
  "cartCategories cartData =
     foldl (\<lambda>acc product.
              if truthy (li_category product)
              then foldl (\<lambda>acc' cat. set_add cat acc') acc (category_parts (the (li_category product)))
              else acc)
       [] (map snd (products cartData))"

definition cartProductIds :: "cart \<Rightarrow> string list" where
  "cartProductIds cartData = foldl (\<lambda>acc k. set_add k acc) [] (map fst (products cartData))"

definition cart_recommendations :: "product list \<Rightarrow> cart \<Rightarrow> product list" where
  "cart_recommendations allProducts cartData =
     take 5 (filter (\<lambda>product.
        (let pid = sku_or_id_or_empty product in
         if pid \<in> set (cartProductIds cartData) then False
         else
           (let productCats = filter (\<lambda>c. c \<noteq> [])
                  (map normalizeProductCat (case p_category product of Some cs \<Rightarrow> cs | None \<Rightarrow> []))
            in list_ex (\<lambda>c. c \<in> set (cartCategories cartData)) productCats)))
       allProducts)"

definition buildRecommendations_cart ::
  "product list \<Rightarrow> cart \<Rightarrow> bool \<Rightarrow> bool \<Rightarrow> rec_section option" where
  "buildRecommendations_cart allProducts cartData isAuthor isLegacy =
     (let recommendations = cart_recommendations allProducts cartData
      in if length recommendations = 0 then None
         else Some (recommendations_section recommendations isAuthor isLegacy))"

subsection \<open>\<open>buildRecommendations\<close> of the product-detail block\<close>

text \<open>
  \<open>product.sku || product.id\<close>, compared with \<open>===\<close>: a truthy SKU, else the id as it is
  (a string, \<open>null\<close> or \<open>undefined\<close>).
\<close>

datatype id_value = IdUndefined | IdNull | IdString string

definition sku_or_id :: "product \<Rightarrow> id_value" where
  "sku_or_id item =
     (if truthy (p_sku item) then IdString (the (p_sku item))
      else (case p_id item of
              Some i \<Rightarrow> IdString i
            | None \<Rightarrow> if p_id_is_null item then IdNull else IdUndefined))"

definition pd_recs :: "product \<Rightarrow> product list \<Rightarrow> product list" where
  "pd_recs currentProduct allProducts =
     (let currentNorm = filter (\<lambda>c. c \<noteq> [])
            (map normalizeCat (case p_category currentProduct of Some cs \<Rightarrow> cs | None \<Rightarrow> []))
      in take 5 (filter (\<lambda>product.
           if sku_or_id product = sku_or_id currentProduct then False
           else
             (let productCategories = filter (\<lambda>c. c \<noteq> [])
                    (map normalizeCat (case p_category product of Some cs \<Rightarrow> cs | None \<Rightarrow> []))
              in list_ex (\<lambda>c. c \<in> set productCategories) currentNorm))
          allProducts))"

definition buildRecommendations_pd ::
  "product \<Rightarrow> product list \<Rightarrow> bool \<Rightarrow> bool \<Rightarrow> rec_section option" where
  "buildRecommendations_pd currentProduct allProducts isAuthor isLegacy =
     (case p_category currentProduct of
        None \<Rightarrow> None
      | Some currentCategories \<Rightarrow>
          if length currentCategories = 0 then None
          else
            (let recs = pd_recs currentProduct allProducts
             in if length recs = 0 then None
                else Some (recommendations_section recs isAuthor isLegacy)))"

text \<open>
  The callers: \<open>if (recommendations) container.appendChild(recommendations)\<close>. The
  recommendation sections that hang below the container are a list, in document order.
\<close>

definition append_if_present :: "rec_section option \<Rightarrow> rec_section list \<Rightarrow> rec_section list" where
  "append_if_present recommendations container =
     (case recommendations of None \<Rightarrow> container | Some section' \<Rightarrow> container @ [section'])"

section \<open>Remote fetch\<close>

text \<open>
  The network is a function from the requested URL to what \<open>fetch\<close> followed by
  \<open>resp.json()\<close> yields: a rejected request, a body that is not JSON, or the parsed body.
  Of the body only the two item lists the code reads are kept
  (\<open>json?.data?.productsContentFragmentModelList?.items\<close> and
  \<open>json?.data?.productsModelList?.items\<close>, \<open>None\<close> when any step of the chain is absent);
  an item of a list may be \<open>null\<close>.
\<close>

record json_body =
  productsContentFragmentModelList_items :: "product option list option"
  productsModelList_items :: "product option list option"

datatype fetch_outcome = NetworkFailure | InvalidJson | Json json_body

type_synonym network = "string \<Rightarrow> fetch_outcome"

definition fetch_json :: "network \<Rightarrow> string \<Rightarrow> js_error + json_body" where
  "fetch_json net url =
     (case net url of
        NetworkFailure \<Rightarrow> Inl FetchError
      | InvalidJson \<Rightarrow> Inl SyntaxError
      | Json json \<Rightarrow> Inr json)"

definition all_products_url :: "string \<Rightarrow> bool \<Rightarrow> bool \<Rightarrow> string" where
  "all_products_url path isAuthor isLegacy =
     (let baseUrl =
        (if isLegacy then
           (if isAuthor
            then ''https://author-p165802-e1765367.adobeaemcloud.com/graphql/execute.json/luma3/menproductspagelister;''
            else ''https://275323-918sangriatortoise.adobeioruntime.net/api/v1/web/dx-excshell-1/lumaProductsGraphQl?environment=p165802-e1765367&'')
         else
           (if isAuthor
            then ''https://author-p165802-e1765367.adobeaemcloud.com/graphql/execute.json/luma3/zoltarProductListByPath;''
            else ''https://275323-918sangriatortoise.adobeioruntime.net/api/v1/web/dx-excshell-1/luma-zoltar?environment=p165802-e1765367&endpoint=zoltarProductListByPath&''))
      in baseUrl @ ''_path='' @ path)"

definition product_by_sku_url :: "string \<Rightarrow> string \<Rightarrow> bool \<Rightarrow> string" where
  "product_by_sku_url path sku isAuthor =
     (let skuItem = (if isAuthor then '';sku='' @ sku else ''&sku='' @ sku);
          baseUrl =
            (if isAuthor
             then ''https://author-p165802-e1765367.adobeaemcloud.com/graphql/execute.json/luma3/getProductsByPathAndSKU;''
             else ''https://275323-918sangriatortoise.adobeioruntime.net/api/v1/web/dx-excshell-1/lumaProductsGrapghQlByPathAndSku?environment=p165802-e1765367&'')
      in baseUrl @ ''_path='' @ path @ skuItem)"

text \<open>\<open>a?.items || b?.items || []\<close>: an array is truthy, also when it is empty.\<close>

definition list_items :: "json_body \<Rightarrow> product option list" where
  "list_items json =
     (case productsContentFragmentModelList_items json of
        Some items \<Rightarrow> items
      | None \<Rightarrow> (case productsModelList_items json of Some items \<Rightarrow> items | None \<Rightarrow> []))"

definition has_sku_or_id :: "product option \<Rightarrow> bool" where
  "has_sku_or_id item' = (case item' of None \<Rightarrow> False | Some item \<Rightarrow> truthy (p_sku item) \<or> truthy (p_id item))"

text \<open>
  The body of the \<open>try\<close> block and the function with its \<open>catch\<close>, which logs and returns
  the empty result.
\<close>

definition fetchAllProducts_try :: "string \<Rightarrow> bool \<Rightarrow> bool \<Rightarrow> network \<Rightarrow> js_error + product list" where
  "fetchAllProducts_try path isAuthor isLegacy net =
     (if path = [] then Inr []
      else
        (case fetch_json net (all_products_url path isAuthor isLegacy) of
           Inl e \<Rightarrow> Inl e
         | Inr json \<Rightarrow> Inr (map the (filter has_sku_or_id (list_items json)))))"

definition fetchAllProducts :: "string \<Rightarrow> bool \<Rightarrow> bool \<Rightarrow> network \<Rightarrow> product list" where
  "fetchAllProducts path isAuthor isLegacy net =
     (case fetchAllProducts_try path isAuthor isLegacy net of Inl e \<Rightarrow> [] | Inr items \<Rightarrow> items)"

text \<open>
  \<open>items.find((item) => (item.sku || item.id || "").toString() === sku.toString())\<close>; reading
  \<open>.sku\<close> of a \<open>null\<close> item throws.
\<close>

fun find_by_sku :: "string \<Rightarrow> product option list \<Rightarrow> js_error + product option" where
  "find_by_sku sku [] = Inr None"
| "find_by_sku sku (None # items) = Inl TypeError"
| "find_by_sku sku (Some item # items) =
     (if sku_or_id_or_empty item = sku then Inr (Some item) else find_by_sku sku items)"

definition fetchProductDetail_try ::
  "string \<Rightarrow> string \<Rightarrow> bool \<Rightarrow> bool \<Rightarrow> network \<Rightarrow> js_error + product option" where
  "fetchProductDetail_try path sku isAuthor isLegacy net =
     (if path = [] \<or> sku = [] then Inr None
      else if isLegacy then
        (case fetch_json net (product_by_sku_url path sku isAuthor) of
           Inl e \<Rightarrow> Inl e
         | Inr json \<Rightarrow>
             (let items = (case productsModelList_items json of Some items \<Rightarrow> items | None \<Rightarrow> [])
              in Inr (if length items > 0 then hd items else None)))
      else
        (case fetch_json net (all_products_url path isAuthor False) of
           Inl e \<Rightarrow> Inl e
         | Inr json \<Rightarrow> find_by_sku sku (list_items json)))"

definition fetchProductDetail :: "string \<Rightarrow> string \<Rightarrow> bool \<Rightarrow> bool \<Rightarrow> network \<Rightarrow> product option" where
  "fetchProductDetail path sku isAuthor isLegacy net =
     (case fetchProductDetail_try path sku isAuthor isLegacy net of Inl e \<Rightarrow> None | Inr product \<Rightarrow> product)"

section \<open>The product-detail block (\<open>blocks/product-detail/product-detail.js\<close>)\<close>

record pd_page =
  pd_dataLayer :: dataLayer
  updateDataLayer_is_function :: bool
  pd_trace :: "call list"

datatype description_el = InnerHTML string | TextContent string

record pd_view =
  view_image :: "picture option"
  view_category :: "string option"
  view_name :: string
  view_price :: "jsnum option"
  view_description :: "description_el option"

text \<open>\<open>description?.html || description?.markdown || description?.plaintext || ""\<close>.\<close>

definition descriptionText :: "description option \<Rightarrow> string" where
  "descriptionText d' =
     (case d' of
        None \<Rightarrow> []
      | Some d \<Rightarrow>
          if truthy (html d) then the (html d)
          else if truthy (markdown d) then the (markdown d)
          else if truthy (plaintext d) then the (plaintext d)
          else [])"

text \<open>\<open>displayName || name || ""\<close>.\<close>

definition name_or_empty :: "string option \<Rightarrow> string" where
  "name_or_empty name =
     (if display_name name \<noteq> [] then display_name name
      else if truthy name then the name
      else [])"

definition string_or_empty :: "string option \<Rightarrow> string" where
  "string_or_empty x = (if truthy x then the x else [])"

text \<open>The object literal \<open>productData\<close>.\<close>

definition productData_of :: "product \<Rightarrow> bool \<Rightarrow> bool \<Rightarrow> productData" where
  "productData_of product isAuthor isLegacy =
     (let imageUrl = getProductImageUrl (Some product) isAuthor isLegacy
      in \<lparr>pd_id = (if truthy (p_id product) then the (p_id product) else string_or_empty (p_sku product)),
          pd_sku = string_or_empty (p_sku product),
          pd_name = name_or_empty (p_name product),
          pd_price = (case p_price product of None \<Rightarrow> Num 0 | Some price \<Rightarrow> or_zero price),
          pd_category = formatCategoryDisplay (p_category product),
          pd_description = descriptionText (p_description product),
          pd_image = string_or_empty imageUrl,
          pd_thumbnail = string_or_empty imageUrl\<rparr>)"

definition buildProductDetail :: "product \<Rightarrow> bool \<Rightarrow> bool \<Rightarrow> pd_page \<Rightarrow> pd_page \<times> pd_view" where
  "buildProductDetail product isAuthor isLegacy s =
     (let imageUrl = getProductImageUrl (Some product) isAuthor isLegacy;
          formattedCategory = formatCategoryDisplay (p_category product);
          productData = productData_of product isAuthor isLegacy;
          s1 = (if updateDataLayer_is_function s
                then s\<lparr>pd_dataLayer := updateDataLayer (PartialProduct productData) None (pd_dataLayer s),
                       pd_trace := pd_trace s @ [Call_updateDataLayer (PartialProduct productData) None]\<rparr>
                else s\<lparr>pd_trace := pd_trace s @ [Call_console_warn]\<rparr>)
      in (s1,
          \<lparr>view_image =
             (if truthy imageUrl then
                (if startsWith_http (the imageUrl)
                 then Some (DirectImg (the imageUrl) (alt_text (p_name product)) True)
                 else Some (OptimizedPicture (the imageUrl) (alt_text (p_name product)) True
                        [(Some ''(min-width: 900px)'', ''800''), (Some ''(min-width: 600px)'', ''600''),
                         (None, ''400'')]))
              else None),
           view_category = (if formattedCategory \<noteq> [] then Some formattedCategory else None),
           view_name = name_or_empty (p_name product),
           view_price =
             (case p_price product of
                None \<Rightarrow> None
              | Some price \<Rightarrow> if truthy_num price then Some price else None),
           view_description =
             (if descriptionText (p_description product) \<noteq> [] then
                (case p_description product of
                   None \<Rightarrow> None
                 | Some d \<Rightarrow>
                     if truthy (html d) then Some (InnerHTML (the (html d)))
                     else if truthy (markdown d) then Some (TextContent (the (markdown d)))
                     else Some (TextContent (descriptionText (p_description product))))
              else None)\<rparr>))"

text \<open>
  \<open>decorate\<close> of the product-detail block, from the point where the folder path and the
  \<open>productId\<close> query parameter have been read; the result is the state and the children
  of the block.
\<close>

datatype pd_node = ErrorMsg string | Detail pd_view | Recommendations rec_section

fun includes_str :: "string \<Rightarrow> string \<Rightarrow> bool" where
  "includes_str sub [] = (sub = [])"
| "includes_str sub (c # cs) = (take (length sub) (c # cs) = sub \<or> includes_str sub cs)"

definition decorate_pd ::
  "string \<Rightarrow> string option \<Rightarrow> bool \<Rightarrow> network \<Rightarrow> pd_page \<Rightarrow> pd_page \<times> pd_node list" where
  "decorate_pd folderHref sku isAuthor net s =
     (let isLegacyLuma3 = (folderHref \<noteq> [] \<and> includes_str ''/dam/luma3/'' folderHref) in
      if folderHref = [] then
        (s, [ErrorMsg ''Please configure the product folder path in the properties panel.''])
      else if \<not> truthy sku then
        (s, [ErrorMsg ''Product not found. Missing product ID in URL.''])
      else
        (let product' = fetchProductDetail folderHref (the sku) isAuthor isLegacyLuma3 net;
             allProducts = fetchAllProducts folderHref isAuthor isLegacyLuma3 net
         in case product' of
              None \<Rightarrow> (s, [ErrorMsg ''Product not found or failed to load.''])
            | Some product \<Rightarrow>
                (let (s1, productDetail) = buildProductDetail product isAuthor isLegacyLuma3 s;
                     recommendations = buildRecommendations_pd product allProducts isAuthor isLegacyLuma3
                 in (s1, [Detail productDetail] @
                          (case recommendations of None \<Rightarrow> [] | Some r \<Rightarrow> [Recommendations r])))))"

text \<open>
  The two places of the cart block that show recommendations: the end of \<open>decorate\<close> and
  the \<open>dataLayerUpdated\<close> listener, which first removes the section already shown.
\<close>

definition decorate_cart_recommendations ::
  "string \<Rightarrow> bool \<Rightarrow> bool \<Rightarrow> network \<Rightarrow> cart \<Rightarrow> rec_section list \<Rightarrow> rec_section list" where
  "decorate_cart_recommendations folderHref isAuthor isLegacyLuma3 net currentCart container =
     (if folderHref \<noteq> [] then
        (let allProducts = fetchAllProducts folderHref isAuthor isLegacyLuma3 net;
             recommendations = buildRecommendations_cart allProducts currentCart isAuthor isLegacyLuma3
         in append_if_present recommendations container)
      else container)"

definition listener_recommendations ::
  "string \<Rightarrow> product list \<Rightarrow> bool \<Rightarrow> bool \<Rightarrow> cart \<Rightarrow> rec_section list \<Rightarrow> rec_section list" where
  "listener_recommendations folderHref allProducts isAuthor isLegacy cartData container =
     (if folderHref \<noteq> [] \<and> length allProducts > 0 then
        (let container1 = (case container of [] \<Rightarrow> [] | existingRec # others \<Rightarrow> others);
             recommendations = buildRecommendations_cart allProducts cartData isAuthor isLegacy
         in append_if_present recommendations container1)
      else container)"

section \<open>Notions the properties are stated with\<close>






text \<open>The cart of the specification's example: A with quantity 2 at 10, B with quantity 1 at 5.\<close>

definition item_A :: line_item where
  "item_A = \<lparr>li_id = ''A'', li_name = Some ''Trail Shoe, size 9'', li_image = None,
     li_category = Some ''Shoes'', li_quantity = Num 2, li_price = Num 10, li_subTotal = Num 20,
     li_total = Num 20\<rparr>"

definition item_B :: line_item where
  "item_B = \<lparr>li_id = ''B'', li_name = Some ''Cap'', li_image = None, li_category = None,
     li_quantity = Num 1, li_price = Num 5, li_subTotal = Num 5, li_total = Num 5\<rparr>"

definition example_cart :: cart where
  "example_cart = \<lparr>productCount = Num 3, products = [(''A'', item_A), (''B'', item_B)],
     subTotal = Num 25, total = Num 25\<rparr>"

text \<open>
  A block showing a cart held by the data layer; its selector engine rejects every
  selector that an id has broken.
\<close>

definition block_with :: "cart \<Rightarrow> cart_block" where
  "block_with c =
     \<lparr>dataLayer = \<lparr>dl_cart = Some c, dl_product = None\<rparr>,
      updateDataLayer_defined = True,
      cart_items_el = Some (ItemRows (map (\<lambda>(k, li). buildCartItem li) (products c))),
      cart_summary_display = Some ''block'',
      cart_main_empty_state = Some False,
      cart_content_is_empty = Some False,
      cart_subtotal_value_el = Some (subTotal c),
      cart_total_value_el = Some (total c),
      cart_product_count_el = None,
      querySelector_other = (\<lambda>productId. Inl SyntaxError),
      trace = []\<rparr>"

definition example_block :: cart_block where
  "example_block = block_with example_cart"


text \<open>
  A cart with one line item whose id holds a double quote (\<open>q"1\<close>), which breaks the
  selector of \<open>updateQuantity\<close>.
\<close>

definition quoted_id :: string where
  "quoted_id = [CHR ''q'', CHR 0x22, CHR ''1'']"

definition quoted_cart :: cart where
  "quoted_cart = \<lparr>productCount = Num 2, products = [(quoted_id, item_A\<lparr>li_id := quoted_id\<rparr>)],
     subTotal = Num 20, total = Num 20\<rparr>"

text \<open>
  Category normalization in the words of the specification: everything up to and
  including the first colon is stripped (nothing when there is no colon), and the
  remainder is lowercased.
\<close>

definition strip_to_first_colon :: "string \<Rightarrow> string" where
  "strip_to_first_colon s =
     (if CHR '':'' \<in> set s then tl (dropWhile (\<lambda>c. c \<noteq> CHR '':'') s) else s)"

definition normalize_as_claimed :: "string \<Rightarrow> string" where
  "normalize_as_claimed cat = toLowerCase (strip_to_first_colon cat)"

text \<open>
  Image URL resolution in the words of the specification. A URL is usable when it is a
  non-empty string; \<open>usable\<close> maps every other value (absent, empty) to \<open>None\<close>, the value
  for which no image element is rendered.
\<close>

definition usable :: "string option \<Rightarrow> string option" where
  "usable u = (if truthy u then u else None)"

definition external_image_url :: "product \<Rightarrow> string option" where
  "external_image_url item =
     (case p_externalImageURL item of
        None \<Rightarrow> None
      | Some (ExtString str) \<Rightarrow> Some str
      | Some (ExtObject pt) \<Rightarrow> pt)"

definition env_url :: "image_ref \<Rightarrow> bool \<Rightarrow> string option" where
  "env_url ref isAuthor = (if isAuthor then authorUrl ref else publishUrl ref)"

definition image_url_as_specified :: "product \<Rightarrow> bool \<Rightarrow> bool \<Rightarrow> string option" where
  "image_url_as_specified item isAuthor isLegacy =
     (if isLegacy then
        (case p_image item of None \<Rightarrow> None | Some img \<Rightarrow> env_url img isAuthor)
      else if truthy (external_image_url item) then external_image_url item
      else (case p_damImageURL item of None \<Rightarrow> None | Some dam \<Rightarrow> env_url dam isAuthor))"

text \<open>A product record with all three image fields, and a page with an empty data layer.\<close>

definition shoe :: product where
  "shoe = \<lparr>p_id = Some ''p1'', p_id_is_null = False, p_sku = Some ''S1'', p_name = Some ''Trail Shoe, size 9'',
     p_price = Some (Num 20), p_category = Some [''demo123:Running Shoes''],
     p_description = Some \<lparr>html = None, markdown = None, plaintext = Some ''Light.''\<rparr>,
     p_image = Some \<lparr>authorUrl = Some ''/author/shoe.jpg'', publishUrl = Some ''/publish/shoe.jpg''\<rparr>,
     p_externalImageURL = Some (ExtObject (Some ''https://img.example/shoe.jpg'')),
     p_damImageURL = Some \<lparr>authorUrl = None, publishUrl = Some ''/dam/shoe.jpg''\<rparr>\<rparr>"

definition empty_page :: pd_page where
  "empty_page = \<lparr>pd_dataLayer = \<lparr>dl_cart = None, dl_product = None\<rparr>,
     updateDataLayer_is_function = True, pd_trace = []\<rparr>"

text \<open>
  The URL \<open>fetchProductDetail\<close> requests: the by-SKU endpoint under the legacy schema, the
  folder listing of the current schema otherwise. Three networks: one that rejects every
  request, one that answers with a body that is not JSON, and one that serves a folder
  of four entries, among them a record without SKU and id and a \<open>null\<close>.
\<close>

definition product_detail_url :: "string \<Rightarrow> string \<Rightarrow> bool \<Rightarrow> bool \<Rightarrow> string" where
  "product_detail_url path sku isAuthor isLegacy =
     (if isLegacy then product_by_sku_url path sku isAuthor else all_products_url path isAuthor False)"

definition hat :: product where
  "hat = \<lparr>p_id = Some ''p2'', p_id_is_null = False, p_sku = Some ''S2'', p_name = Some ''Sun Hat'',
     p_price = Some (Num 12), p_category = Some [''demo123:Hats''],
     p_description = None, p_image = None, p_externalImageURL = None, p_damImageURL = None\<rparr>"

definition nameless :: product where
  "nameless = \<lparr>p_id = None, p_id_is_null = True, p_sku = Some [], p_name = Some ''Orphan'',
     p_price = None, p_category = Some [''demo123:Running Shoes''],
     p_description = None, p_image = None, p_externalImageURL = None, p_damImageURL = None\<rparr>"

definition failing_network :: network where
  "failing_network url = NetworkFailure"

definition garbled_network :: network where
  "garbled_network url = InvalidJson"

definition catalog_network :: network where
  "catalog_network url =
     Json \<lparr>productsContentFragmentModelList_items = Some [Some shoe, Some nameless, None, Some hat],
           productsModelList_items = None\<rparr>"

text \<open>
  The recommendation filter in the words of the specification. The normalized
  categories of a product are its category strings after normalization, empty results
  left out. A candidate passes for the cart when its SKU-or-id is not a key of the cart's
  \<open>products\<close> and it has a normalized category in the set collected from the cart's line
  items; it passes for a current product when its SKU-or-id differs from that product's
  and the two have a normalized category in common. The categories of a line item are
  the non-empty pieces of its category string between \<open>/\<close> and \<open>,\<close>, trimmed and lowercased.
\<close>

definition line_item_categories :: "line_item \<Rightarrow> string set" where
  "line_item_categories li =
     (case li_category li of None \<Rightarrow> {} | Some category \<Rightarrow> set (category_parts category))"

definition normalized_categories :: "product \<Rightarrow> string list" where
  "normalized_categories p =
     filter (\<lambda>c. c \<noteq> []) (map normalizeProductCat (case p_category p of Some cs \<Rightarrow> cs | None \<Rightarrow> []))"

definition passes_cart :: "cart \<Rightarrow> product \<Rightarrow> bool" where
  "passes_cart cartData p =
     (sku_or_id_or_empty p \<notin> fst ` set (products cartData) \<and>
      set (normalized_categories p) \<inter> set (cartCategories cartData) \<noteq> {})"

definition passes_pd :: "product \<Rightarrow> product \<Rightarrow> bool" where
  "passes_pd currentProduct p =
     (sku_or_id p \<noteq> sku_or_id currentProduct \<and>
      set (normalized_categories p) \<inter> set (normalized_categories currentProduct) \<noteq> {})"

text \<open>Two more products: one in the category of line item A, and one with A's own SKU.\<close>

definition sandal :: product where
  "sandal = \<lparr>p_id = Some ''p3'', p_id_is_null = False, p_sku = Some ''S3'', p_name = Some ''Sandal'',
     p_price = Some (Num 15), p_category = Some [''demo123:Shoes'', ''demo123:Summer''],
     p_description = None, p_image = None, p_externalImageURL = None, p_damImageURL = None\<rparr>"

definition shoe_A :: product where
  "shoe_A = sandal\<lparr>p_id := Some ''pA'', p_sku := Some ''A'', p_name := Some ''Trail Shoe, size 9''\<rparr>"

text \<open>The name the specification describes for the data-layer product: the text before the first comma.\<close>

definition text_before_first_comma :: "string option \<Rightarrow> string" where
  "text_before_first_comma name =
     (case name of None \<Rightarrow> [] | Some n \<Rightarrow> takeWhile (\<lambda>c. c \<noteq> CHR '','') n)"

section \<open>Properties of the cart handlers\<close>


lemma products_recalculate: "products (recalculate_totals c) = products c"
  by (simp add: recalculate_totals_def Let_def)

lemma current_cart_block_with: "current_cart (block_with c) = c"
  by (simp add: current_cart_def block_with_def getDataLayerProperty_cart_def)

lemma parseInt_JInt_0: "parseInt (JInt 0) = Num 0"
  by code_simp

lemma parseInt_JInt_minus_1: "parseInt (JInt (- 1)) = Num (- 1)"
  by code_simp

lemma parseInt_empty: "parseInt (JStr []) = NaN"
  by code_simp


text \<open>
  Rounding at work: \<open>0.1 + 0.2\<close> is \<open>0.30000000000000004\<close>, not the double \<open>0.3\<close>; the
  integer \<open>2^53 + 1\<close> is read as \<open>2^53\<close>; a no-break space before the digits is skipped.
\<close>

lemma rounding_examples:
  "js_add (Num (to_double (1 / 10))) (Num (to_double (2 / 10))) =
     Num (5404319552844596 / 18014398509481984) \<and>
   to_double (3 / 10) = 5404319552844595 / 18014398509481984 \<and>
   parseInt (JStr ''9007199254740993'') = Num 9007199254740992 \<and>
   parseInt (JStr [CHR 0xA0, CHR ''7'', CHR ''.'', CHR ''9'']) = Num 7"
  by code_simp

lemma example_keys: "map_of (products example_cart) ''A'' = Some item_A"
  "map_of (products example_cart) ''B'' = Some item_B"
  "map_of (products example_cart) ''Z'' = None"
  by (simp_all add: example_cart_def)





















lemma current_cart_written:
  "dataLayer s' = updateDataLayer (PartialCart c) (Some False) dl \<Longrightarrow> current_cart s' = c"
  by (simp add: current_cart_def getDataLayerProperty_cart_def)





lemma updateQuantity_update_branch:
  assumes "\<not> js_lt (parseInt newQuantity) (Num 1)"
    and "has_truthy_property (products (current_cart s)) productId"
    and "updateDataLayer_defined s"
    and "c' = recalculate_totals ((current_cart s)\<lparr>products :=
       (case map_of (products (current_cart s)) productId of
          Some item \<Rightarrow> AList.update productId (update_line_item (parseInt newQuantity) item)
                         (products (current_cart s))
        | None \<Rightarrow> products (current_cart s))\<rparr>)"
    and "s2 = updateCartTotals c'
          (s\<lparr>dataLayer := updateDataLayer (PartialCart c') (Some False) (dataLayer s),
             trace := trace s @ [Call_updateDataLayer (PartialCart c') (Some False)]\<rparr>)"
  shows "updateQuantity productId newQuantity s =
     (case querySelector_row s2 productId of
        Inl e \<Rightarrow> Inl (e, s2)
      | Inr None \<Rightarrow> Inr s2
      | Inr (Some i) \<Rightarrow>
          Inr (s2\<lparr>cart_items_el := set_price_at i
             (case map_of (products (current_cart s)) productId of
                     Some item \<Rightarrow> li_subTotal (update_line_item (parseInt newQuantity) item)
                   | None \<Rightarrow> NaN) (cart_items_el s2)\<rparr>))"
  unfolding updateQuantity_def Let_def assms(4,5) using assms(1,2,3) by simp

lemma state_left_updateQuantity:
  assumes "\<not> js_lt (parseInt newQuantity) (Num 1)"
    and "has_truthy_property (products (current_cart s)) productId"
    and "updateDataLayer_defined s"
    and "c' = recalculate_totals ((current_cart s)\<lparr>products :=
       (case map_of (products (current_cart s)) productId of
          Some item \<Rightarrow> AList.update productId (update_line_item (parseInt newQuantity) item)
                         (products (current_cart s))
        | None \<Rightarrow> products (current_cart s))\<rparr>)"
  shows "dataLayer (state_left (updateQuantity productId newQuantity s)) =
           updateDataLayer (PartialCart c') (Some False) (dataLayer s) \<and>
         trace (state_left (updateQuantity productId newQuantity s)) =
           trace s @ [Call_updateDataLayer (PartialCart c') (Some False), Call_updateCartTotals c']"
proof -
  define s2 where "s2 = updateCartTotals c'
          (s\<lparr>dataLayer := updateDataLayer (PartialCart c') (Some False) (dataLayer s),
             trace := trace s @ [Call_updateDataLayer (PartialCart c') (Some False)]\<rparr>)"
  have d: "dataLayer s2 = updateDataLayer (PartialCart c') (Some False) (dataLayer s)"
    by (simp add: s2_def updateCartTotals_def)
  have t: "trace s2 = trace s @ [Call_updateDataLayer (PartialCart c') (Some False), Call_updateCartTotals c']"
    by (simp add: s2_def updateCartTotals_def)
  show ?thesis
    unfolding updateQuantity_update_branch [OF assms s2_def]
    using d t by (simp split: sum.splits option.splits)
qed








lemma not_lt_NaN: "\<not> js_lt NaN x"
  by (cases x) auto

lemma has_truthy_present: "map_of ps k = Some item \<Longrightarrow> has_truthy_property ps k"
  by (simp add: has_truthy_property_def)



text \<open>
  C3. \<open>updateQuantity(productId, 0)\<close> and \<open>updateQuantity(productId, -1)\<close> each leave
  exactly the state \<open>removeFromCart(productId)\<close> leaves: the same data layer, the same
  rendered block and the same sequence of store writes and redraws, for every state of
  the block and every product id.
\<close>

theorem updateQuantity_below_one_is_remove:
  "updateQuantity productId (JInt 0) s = Inr (removeFromCart productId s) \<and>
   updateQuantity productId (JInt (- 1)) s = Inr (removeFromCart productId s)"
  by (simp add: updateQuantity_def parseInt_JInt_0 parseInt_JInt_minus_1)







text \<open>
  C5. When the product id is a key of the cart and the new quantity parses to \<open>NaN\<close>, the
  comparison with 1 is false, so \<open>updateQuantity\<close> does not remove the line item: in the
  state it leaves, whether it returns or throws, the cart of the data layer still holds
  the line item. When \<open>window.updateDataLayer\<close> is there, the line item is written with
  \<open>NaN\<close> as its quantity (and as the subtotal and total computed from it): the store is
  written once, the totals are updated, the item list is not redrawn, and the call
  returns normally when the id leaves the row selector well-formed (otherwise the
  selector engine decides, after the write). When \<open>window.updateDataLayer\<close> is missing, the
  call throws a \<open>TypeError\<close> before anything is written.
\<close>

theorem updateQuantity_NaN_written_through:
  assumes "map_of (products (current_cart s)) productId = Some item"
    and "parseInt newQuantity = NaN"
  shows "map_of (products (current_cart (state_left (updateQuantity productId newQuantity s)))) productId =
           Some (if updateDataLayer_defined s
                 then item\<lparr>li_quantity := NaN, li_subTotal := NaN, li_total := NaN\<rparr>
                 else item) \<and>
         (updateDataLayer_defined s \<longrightarrow>
            (\<exists>c'. trace (state_left (updateQuantity productId newQuantity s)) =
                    trace s @ [Call_updateDataLayer (PartialCart c') (Some False),
                               Call_updateCartTotals c'] \<and>
                  map_of (products c') productId =
                    Some (item\<lparr>li_quantity := NaN, li_subTotal := NaN, li_total := NaN\<rparr>))) \<and>
         (updateDataLayer_defined s \<and> selector_plain productId \<longrightarrow>
            (\<exists>s'. updateQuantity productId newQuantity s = Inr s')) \<and>
         (\<not> updateDataLayer_defined s \<longrightarrow>
            updateQuantity productId newQuantity s = Inl (TypeError, s))"
proof (cases "updateDataLayer_defined s")
  case False
  from assms have h: "has_truthy_property (products (current_cart s)) productId"
    by (simp add: has_truthy_present)
  from assms(2) have l: "\<not> js_lt (parseInt newQuantity) (Num 1)" by (simp add: not_lt_NaN)
  from False h l have "updateQuantity productId newQuantity s = Inl (TypeError, s)"
    by (simp add: updateQuantity_def Let_def)
  with False assms(1) show ?thesis by simp
next
  case True
  from assms have h: "has_truthy_property (products (current_cart s)) productId"
    by (simp add: has_truthy_present)
  from assms(2) have l: "\<not> js_lt (parseInt newQuantity) (Num 1)" by (simp add: not_lt_NaN)
  define c' where "c' = recalculate_totals ((current_cart s)\<lparr>products :=
       (case map_of (products (current_cart s)) productId of
          Some item \<Rightarrow> AList.update productId (update_line_item (parseInt newQuantity) item)
                         (products (current_cart s))
        | None \<Rightarrow> products (current_cart s))\<rparr>)"
  define s2 where "s2 = updateCartTotals c'
          (s\<lparr>dataLayer := updateDataLayer (PartialCart c') (Some False) (dataLayer s),
             trace := trace s @ [Call_updateDataLayer (PartialCart c') (Some False)]\<rparr>)"
  have m: "map_of (products c') productId =
      Some (item\<lparr>li_quantity := NaN, li_subTotal := NaN, li_total := NaN\<rparr>)"
    by (simp add: c'_def products_recalculate assms update_conv' update_line_item_def Let_def)
  from state_left_updateQuantity [OF l h True c'_def]
  have d: "dataLayer (state_left (updateQuantity productId newQuantity s)) =
           updateDataLayer (PartialCart c') (Some False) (dataLayer s)"
    and t: "trace (state_left (updateQuantity productId newQuantity s)) =
           trace s @ [Call_updateDataLayer (PartialCart c') (Some False), Call_updateCartTotals c']"
    by simp_all
  from current_cart_written [OF d]
  have c: "current_cart (state_left (updateQuantity productId newQuantity s)) = c'" .
  have r: "selector_plain productId \<longrightarrow> (\<exists>s'. updateQuantity productId newQuantity s = Inr s')"
    unfolding updateQuantity_update_branch [OF l h True c'_def s2_def]
    by (simp add: querySelector_row_def split: option.splits)
  from c m t r True show ?thesis by auto
qed

theorem updateQuantity_NaN_written_through_witness:
  "map_of (products (current_cart example_block)) ''A'' = Some item_A \<and>
   parseInt (JStr []) = NaN \<and>
   updateDataLayer_defined example_block \<and>
   selector_plain ''A'' \<and>
   (\<exists>s'. updateQuantity ''A'' (JStr []) example_block = Inr s') \<and>
   map_of (products (current_cart (state_left (updateQuantity ''A'' (JStr []) example_block)))) ''A'' =
     Some (item_A\<lparr>li_quantity := NaN, li_subTotal := NaN, li_total := NaN\<rparr>) \<and>
   map_of (products (current_cart (block_with quoted_cart))) quoted_id =
     Some (item_A\<lparr>li_id := quoted_id\<rparr>) \<and>
   (case updateQuantity quoted_id (JStr []) (block_with quoted_cart) of
      Inl (e, s') \<Rightarrow> Some e
    | Inr s' \<Rightarrow> None) = Some SyntaxError \<and>
   map_of (products (current_cart (state_left
       (updateQuantity quoted_id (JStr []) (block_with quoted_cart))))) quoted_id =
     Some (item_A\<lparr>li_id := quoted_id, li_quantity := NaN, li_subTotal := NaN, li_total := NaN\<rparr>)"
proof -
  have h: "map_of (products (current_cart example_block)) ''A'' = Some item_A"
    by (simp add: example_block_def current_cart_block_with example_keys)
  have d: "updateDataLayer_defined example_block"
    by (simp add: example_block_def block_with_def)
  have p: "selector_plain ''A''" by code_simp
  have h': "map_of (products (current_cart (block_with quoted_cart))) quoted_id =
     Some (item_A\<lparr>li_id := quoted_id\<rparr>)"
    by (simp add: current_cart_block_with quoted_cart_def)
  have d': "updateDataLayer_defined (block_with quoted_cart)"
    by (simp add: block_with_def)
  have e: "(case updateQuantity quoted_id (JStr []) (block_with quoted_cart) of
      Inl (e, s') \<Rightarrow> Some e
    | Inr s' \<Rightarrow> None) = Some SyntaxError"
    by code_simp
  from updateQuantity_NaN_written_through [OF h parseInt_empty]
    updateQuantity_NaN_written_through [OF h' parseInt_empty] h d p h' d' e parseInt_empty
  show ?thesis by (intro conjI) simp_all
qed




section \<open>Properties of category strings\<close>

lemma lower_char_colon: "(lower_char c = CHR '':'') = (c = CHR '':'')"
proof (cases "(65 \<le> (of_char c :: nat) \<and> (of_char c :: nat) \<le> 90) \<or>
    (192 \<le> (of_char c :: nat) \<and> (of_char c :: nat) \<le> 214) \<or>
    (216 \<le> (of_char c :: nat) \<and> (of_char c :: nat) \<le> 222)")
  case True
  then have "lower_char c = char_of ((of_char c :: nat) + 32)"
    by (simp add: lower_char_def Let_def)
  then have "(of_char (lower_char c) :: nat) = ((of_char c :: nat) + 32) mod 256"
    by simp
  with True have "(of_char (lower_char c) :: nat) = (of_char c :: nat) + 32"
    by auto
  with True have "lower_char c \<noteq> CHR '':''" by auto
  moreover from True have "c \<noteq> CHR '':''" by auto
  ultimately show ?thesis by simp
next
  case False
  then show ?thesis by (auto simp add: lower_char_def Let_def)
qed

lemma takeWhile_lower:
  "takeWhile (\<lambda>c. c \<noteq> CHR '':'') (map lower_char s) = map lower_char (takeWhile (\<lambda>c. c \<noteq> CHR '':'') s)"
  by (induction s) (auto simp add: lower_char_colon)

lemma dropWhile_lower:
  "dropWhile (\<lambda>c. c \<noteq> CHR '':'') (map lower_char s) = map lower_char (dropWhile (\<lambda>c. c \<noteq> CHR '':'') s)"
  by (induction s) (auto simp add: lower_char_colon)

lemma strip_namespace_lower:
  "strip_namespace (toLowerCase cat) =
     (if cat \<noteq> [] \<and> hd cat = CHR '':'' then toLowerCase cat else normalize_as_claimed cat)"
proof (cases cat)
  case Nil
  then show ?thesis
    by (simp add: strip_namespace_def toLowerCase_def normalize_as_claimed_def strip_to_first_colon_def)
next
  case (Cons c cs)
  show ?thesis
  proof (cases "c = CHR '':''")
    case True
    with Cons show ?thesis
      by (simp add: strip_namespace_def toLowerCase_def lower_char_colon)
  next
    case False
    have dw: "(dropWhile (\<lambda>c. c \<noteq> CHR '':'') cs = []) = (CHR '':'' \<notin> set cs)"
      by (auto simp add: dropWhile_eq_Nil_conv)
    from False Cons show ?thesis
      by (auto simp add: strip_namespace_def toLowerCase_def normalize_as_claimed_def
          strip_to_first_colon_def takeWhile_lower dropWhile_lower lower_char_colon Let_def dw map_tl)
  qed
qed

text \<open>
  C8, as the specification has it: normalization strips everything up to and including
  the first colon. The pattern \<open>/^[^:]+:/\<close> needs at least one character before the colon,
  so a string that begins with a colon keeps it.
\<close>

theorem leading_colon_is_kept:
  "normalizeProductCat '':Shoes'' = '':shoes'' \<and> normalizeCat '':Shoes'' = '':shoes'' \<and>
   normalize_as_claimed '':Shoes'' = ''shoes''"
  by code_simp

text \<open>
  C8, amended. Category normalization (\<open>normalizeProductCat\<close> in the cart block,
  \<open>normalizeCat\<close> in the product-detail block) lowercases the string and strips
  everything up to and including the first colon, except that a string beginning with a
  colon is only lowercased. \<open>"demo123:Running Shoes"\<close> normalizes to \<open>"running shoes"\<close>, and
  the display formatting of that category gives \<open>"Running Shoes"\<close>.
\<close>

theorem category_normalization:
  "normalizeProductCat cat =
     (if cat \<noteq> [] \<and> hd cat = CHR '':'' then toLowerCase cat else normalize_as_claimed cat) \<and>
   normalizeCat cat =
     (if cat \<noteq> [] \<and> hd cat = CHR '':'' then toLowerCase cat else normalize_as_claimed cat) \<and>
   normalizeProductCat ''demo123:Running Shoes'' = ''running shoes'' \<and>
   normalizeCat ''demo123:Running Shoes'' = ''running shoes'' \<and>
   formatCategoryDisplay (Some [''demo123:Running Shoes'']) = ''Running Shoes''"
proof -
  have a: "normalizeProductCat ''demo123:Running Shoes'' = ''running shoes''" by code_simp
  have b: "normalizeCat ''demo123:Running Shoes'' = ''running shoes''" by code_simp
  have c: "formatCategoryDisplay (Some [''demo123:Running Shoes'']) = ''Running Shoes''" by code_simp
  show ?thesis
    using a b c by (simp add: normalizeProductCat_def normalizeCat_def strip_namespace_lower)
qed

theorem category_normalization_witness:
  "normalizeProductCat ''x:Hats'' = ''hats'' \<and> normalizeCat ''a:b:c'' = ''b:c'' \<and>
   normalizeProductCat ''Plain'' = ''plain''"
proof -
  have n1: "normalize_as_claimed ''x:Hats'' = ''hats''" by code_simp
  have n2: "normalize_as_claimed ''a:b:c'' = ''b:c''" by code_simp
  have n3: "normalize_as_claimed ''Plain'' = ''plain''" by code_simp
  from category_normalization [of "''x:Hats''"] n1
  have 1: "normalizeProductCat ''x:Hats'' = ''hats''" by simp
  from category_normalization [of "''a:b:c''"] n2
  have 2: "normalizeCat ''a:b:c'' = ''b:c''" by simp
  from category_normalization [of "''Plain''"] n3
  have 3: "normalizeProductCat ''Plain'' = ''plain''" by simp
  from 1 2 3 show ?thesis by simp
qed

section \<open>Properties of image URL resolution\<close>

lemma usable_dam:
  "usable (dam_image_url item a) = usable (case p_damImageURL item of None \<Rightarrow> None | Some dam \<Rightarrow> env_url dam a)"
  by (auto simp add: dam_image_url_def usable_def env_url_def split: option.splits)

lemma dam_exact:
  "dam_image_url item a = (case p_damImageURL item of None \<Rightarrow> None | Some dam \<Rightarrow> env_url dam a) \<or>
   dam_image_url item a = None"
  by (auto simp add: dam_image_url_def env_url_def split: option.splits)

lemma image_usable:
  "usable (getProductImageUrl (Some item) a l) = usable (image_url_as_specified item a l)"
proof (cases l)
  case True
  then show ?thesis
    by (auto simp add: getProductImageUrl_def image_url_as_specified_def usable_def env_url_def
        split: option.splits)
next
  case False
  show ?thesis
  proof (cases "truthy (external_image_url item)")
    case True
    with False show ?thesis
      by (auto simp add: getProductImageUrl_def image_url_as_specified_def external_image_url_def
          split: option.splits external_image.splits)
  next
    case nt: False
    with False have "getProductImageUrl (Some item) a l = dam_image_url item a"
      by (auto simp add: getProductImageUrl_def external_image_url_def Let_def
          split: option.splits external_image.splits)
    with nt False show ?thesis
      by (simp add: image_url_as_specified_def usable_dam)
  qed
qed

lemma image_exact:
  "getProductImageUrl (Some item) a l = image_url_as_specified item a l \<or>
   getProductImageUrl (Some item) a l = None"
proof (cases l)
  case True
  then show ?thesis
    by (auto simp add: getProductImageUrl_def image_url_as_specified_def env_url_def
        split: option.splits)
next
  case False
  show ?thesis
  proof (cases "truthy (external_image_url item)")
    case True
    with False show ?thesis
      by (auto simp add: getProductImageUrl_def image_url_as_specified_def external_image_url_def
          split: option.splits external_image.splits)
  next
    case nt: False
    with False have "getProductImageUrl (Some item) a l = dam_image_url item a"
      by (auto simp add: getProductImageUrl_def external_image_url_def Let_def
          split: option.splits external_image.splits)
    with nt False dam_exact [of item a] show ?thesis
      by (simp add: image_url_as_specified_def)
  qed
qed

lemma usable_None: "(usable u = None) = (\<not> truthy u)"
  by (cases u) (auto simp add: usable_def)

lemma view_image_None:
  "(view_image (snd (buildProductDetail item a l s)) = None) = (\<not> truthy (getProductImageUrl (Some item) a l))"
  by (simp add: buildProductDetail_def Let_def)

lemma card_picture_None:
  "(card_picture (buildRecommendationCard item a l) = None) = (\<not> truthy (getProductImageUrl (Some item) a l))"
  by (simp add: buildRecommendationCard_def Let_def)

text \<open>
  C6. For a missing record the result is \<open>null\<close>. For every product record, environment
  flag and schema flag, \<open>getProductImageUrl\<close> resolves to the same usable URL as the
  specification's rule: under the legacy schema the \<open>image\<close> field's author sub-field in
  the author environment and its publish sub-field otherwise, \<open>null\<close> without an \<open>image\<close>
  field; under the current schema the external image URL (the string itself, or the
  \<open>plaintext\<close> of the wrapper) when there is one, else the author or publish sub-field of
  \<open>damImageURL\<close>, else \<open>null\<close>. Whatever the code returns is that rule's value or
  \<open>null\<close>. The detail view and a recommendation card hold no image element exactly when
  the result is not a usable URL.
\<close>

theorem image_url_resolution:
  "getProductImageUrl None isAuthor isLegacy = None \<and>
   usable (getProductImageUrl (Some item) isAuthor isLegacy) =
     usable (image_url_as_specified item isAuthor isLegacy) \<and>
   (getProductImageUrl (Some item) isAuthor isLegacy = image_url_as_specified item isAuthor isLegacy \<or>
    getProductImageUrl (Some item) isAuthor isLegacy = None) \<and>
   (view_image (snd (buildProductDetail item isAuthor isLegacy s)) = None) =
     (usable (getProductImageUrl (Some item) isAuthor isLegacy) = None) \<and>
   (card_picture (buildRecommendationCard item isAuthor isLegacy) = None) =
     (usable (getProductImageUrl (Some item) isAuthor isLegacy) = None)"
proof -
  have n: "getProductImageUrl None isAuthor isLegacy = None"
    by (simp add: getProductImageUrl_def)
  have v: "(view_image (snd (buildProductDetail item isAuthor isLegacy s)) = None) =
     (usable (getProductImageUrl (Some item) isAuthor isLegacy) = None)"
    by (simp only: usable_None view_image_None)
  have c: "(card_picture (buildRecommendationCard item isAuthor isLegacy) = None) =
     (usable (getProductImageUrl (Some item) isAuthor isLegacy) = None)"
    by (simp only: usable_None card_picture_None)
  from n image_usable [of item isAuthor isLegacy] image_exact [of item isAuthor isLegacy] v c
  show ?thesis by (intro conjI)
qed

theorem image_url_resolution_witness:
  "getProductImageUrl (Some shoe) True True = Some ''/author/shoe.jpg'' \<and>
   getProductImageUrl (Some shoe) False True = Some ''/publish/shoe.jpg'' \<and>
   getProductImageUrl (Some shoe) False False = Some ''https://img.example/shoe.jpg'' \<and>
   getProductImageUrl (Some (shoe\<lparr>p_externalImageURL := None\<rparr>)) False False = Some ''/dam/shoe.jpg'' \<and>
   getProductImageUrl (Some (shoe\<lparr>p_image := None\<rparr>)) True True = None \<and>
   view_image (snd (buildProductDetail (shoe\<lparr>p_image := None\<rparr>) True True empty_page)) = None"
proof -
  have s1: "image_url_as_specified shoe True True = Some ''/author/shoe.jpg''" by code_simp
  have s2: "image_url_as_specified shoe False True = Some ''/publish/shoe.jpg''" by code_simp
  have s3: "image_url_as_specified shoe False False = Some ''https://img.example/shoe.jpg''" by code_simp
  have s4: "image_url_as_specified (shoe\<lparr>p_externalImageURL := None\<rparr>) False False = Some ''/dam/shoe.jpg''"
    by code_simp
  have s5: "image_url_as_specified (shoe\<lparr>p_image := None\<rparr>) True True = None" by code_simp
  show ?thesis
    using image_url_resolution [of True True shoe empty_page]
      image_url_resolution [of False True shoe empty_page]
      image_url_resolution [of False False shoe empty_page]
      image_url_resolution [of False False "shoe\<lparr>p_externalImageURL := None\<rparr>" empty_page]
      image_url_resolution [of True True "shoe\<lparr>p_image := None\<rparr>" empty_page]
      s1 s2 s3 s4 s5
    by (auto simp add: usable_def split: if_splits)
qed

section \<open>Properties of the remote fetch\<close>

lemma has_sku_or_id_the:
  "has_sku_or_id item' \<Longrightarrow> truthy (p_sku (the item')) \<or> truthy (p_id (the item'))"
  by (cases item') (auto simp add: has_sku_or_id_def)

lemma fetchAllProducts_filtered:
  "p \<in> set (fetchAllProducts path a l net) \<Longrightarrow> truthy (p_sku p) \<or> truthy (p_id p)"
  by (auto simp add: fetchAllProducts_def fetchAllProducts_try_def
      split: sum.splits if_splits dest: has_sku_or_id_the)

lemma fetchAllProducts_success:
  "path \<noteq> [] \<Longrightarrow> net (all_products_url path a l) = Json json \<Longrightarrow>
   fetchAllProducts path a l net = map the (filter has_sku_or_id (list_items json))"
  by (simp add: fetchAllProducts_def fetchAllProducts_try_def fetch_json_def)

lemma fetchAllProducts_failure:
  "net (all_products_url path a l) = NetworkFailure \<or> net (all_products_url path a l) = InvalidJson \<Longrightarrow>
   fetchAllProducts path a l net = []"
  by (auto simp add: fetchAllProducts_def fetchAllProducts_try_def fetch_json_def)

lemma fetchProductDetail_failure:
  "net (product_detail_url path sku a l) = NetworkFailure \<or>
   net (product_detail_url path sku a l) = InvalidJson \<Longrightarrow>
   fetchProductDetail path sku a l net = None"
  by (auto simp add: fetchProductDetail_def fetchProductDetail_try_def fetch_json_def
      product_detail_url_def)

text \<open>
  C7. When the request is rejected or its body is not JSON, the single-product fetch
  returns \<open>null\<close> and the folder listing returns the empty list; more generally every
  exception raised inside the \<open>try\<close> block ends in that result, so neither function
  throws to its caller. When the folder listing's request succeeds, the result is the
  list of the response's records that are not \<open>null\<close> and have a non-empty SKU or id, in
  the order of the response; so no record of any result lacks both.
\<close>

theorem fetch_failures_absorbed:
  "((net (product_detail_url path sku isAuthor isLegacy) = NetworkFailure \<or>
     net (product_detail_url path sku isAuthor isLegacy) = InvalidJson) \<longrightarrow>
      fetchProductDetail path sku isAuthor isLegacy net = None) \<and>
   ((net (all_products_url path isAuthor isLegacy) = NetworkFailure \<or>
     net (all_products_url path isAuthor isLegacy) = InvalidJson) \<longrightarrow>
      fetchAllProducts path isAuthor isLegacy net = []) \<and>
   (\<forall>e. fetchProductDetail_try path sku isAuthor isLegacy net = Inl e \<longrightarrow>
      fetchProductDetail path sku isAuthor isLegacy net = None) \<and>
   (\<forall>e. fetchAllProducts_try path isAuthor isLegacy net = Inl e \<longrightarrow>
      fetchAllProducts path isAuthor isLegacy net = []) \<and>
   (\<forall>json. path \<noteq> [] \<and> net (all_products_url path isAuthor isLegacy) = Json json \<longrightarrow>
      fetchAllProducts path isAuthor isLegacy net =
        [the item. item \<leftarrow> list_items json, has_sku_or_id item]) \<and>
   (\<forall>p \<in> set (fetchAllProducts path isAuthor isLegacy net). truthy (p_sku p) \<or> truthy (p_id p))"
proof -
  have m: "\<And>xs. [the item. item \<leftarrow> xs, has_sku_or_id item] = map the (filter has_sku_or_id xs)"
  proof -
    fix xs :: "product option list"
    show "[the item. item \<leftarrow> xs, has_sku_or_id item] = map the (filter has_sku_or_id xs)"
      by (induction xs) auto
  qed
  have 1: "(net (product_detail_url path sku isAuthor isLegacy) = NetworkFailure \<or>
     net (product_detail_url path sku isAuthor isLegacy) = InvalidJson) \<longrightarrow>
      fetchProductDetail path sku isAuthor isLegacy net = None"
    using fetchProductDetail_failure [of net path sku isAuthor isLegacy] by blast
  have 2: "(net (all_products_url path isAuthor isLegacy) = NetworkFailure \<or>
     net (all_products_url path isAuthor isLegacy) = InvalidJson) \<longrightarrow>
      fetchAllProducts path isAuthor isLegacy net = []"
    using fetchAllProducts_failure [of net path isAuthor isLegacy] by blast
  have 3: "\<forall>e. fetchProductDetail_try path sku isAuthor isLegacy net = Inl e \<longrightarrow>
      fetchProductDetail path sku isAuthor isLegacy net = None"
    by (simp add: fetchProductDetail_def)
  have 4: "\<forall>e. fetchAllProducts_try path isAuthor isLegacy net = Inl e \<longrightarrow>
      fetchAllProducts path isAuthor isLegacy net = []"
    by (simp add: fetchAllProducts_def)
  have 5: "\<forall>json. path \<noteq> [] \<and> net (all_products_url path isAuthor isLegacy) = Json json \<longrightarrow>
      fetchAllProducts path isAuthor isLegacy net =
        [the item. item \<leftarrow> list_items json, has_sku_or_id item]"
    by (simp add: m fetchAllProducts_success)
  have 6: "\<forall>p \<in> set (fetchAllProducts path isAuthor isLegacy net). truthy (p_sku p) \<or> truthy (p_id p)"
    using fetchAllProducts_filtered by blast
  from 1 2 3 4 5 6 show ?thesis by (intro conjI)
qed

theorem fetch_failures_absorbed_witness:
  "fetchProductDetail ''/content/dam/luma'' ''S1'' False False failing_network = None \<and>
   fetchAllProducts ''/content/dam/luma'' False False garbled_network = [] \<and>
   fetchProductDetail_try ''/content/dam/luma'' ''S2'' False False catalog_network = Inl TypeError \<and>
   fetchProductDetail ''/content/dam/luma'' ''S2'' False False catalog_network = None \<and>
   fetchAllProducts ''/content/dam/luma'' False False catalog_network = [shoe, hat]"
proof -
  have f: "failing_network (product_detail_url ''/content/dam/luma'' ''S1'' False False) = NetworkFailure"
    by (simp add: failing_network_def)
  have g: "garbled_network (all_products_url ''/content/dam/luma'' False False) = InvalidJson"
    by (simp add: garbled_network_def)
  have t: "fetchProductDetail_try ''/content/dam/luma'' ''S2'' False False catalog_network = Inl TypeError"
    by code_simp
  have c: "catalog_network (all_products_url ''/content/dam/luma'' False False) =
     Json \<lparr>productsContentFragmentModelList_items = Some [Some shoe, Some nameless, None, Some hat],
           productsModelList_items = None\<rparr>"
    by (simp add: catalog_network_def)
  have l: "[the item. item \<leftarrow> list_items \<lparr>productsContentFragmentModelList_items = Some [Some shoe, Some nameless, None, Some hat],
           productsModelList_items = None\<rparr>, has_sku_or_id item] = [shoe, hat]"
    by (simp add: list_items_def has_sku_or_id_def shoe_def nameless_def hat_def)
  have ne: "''/content/dam/luma'' \<noteq> []" by simp
  from fetch_failures_absorbed [of failing_network "''/content/dam/luma''" "''S1''" False False] f
  have 1: "fetchProductDetail ''/content/dam/luma'' ''S1'' False False failing_network = None"
    by blast
  from fetch_failures_absorbed [of garbled_network "''/content/dam/luma''" "''S1''" False False] g
  have 2: "fetchAllProducts ''/content/dam/luma'' False False garbled_network = []"
    by blast
  from fetch_failures_absorbed [of catalog_network "''/content/dam/luma''" "''S2''" False False] t
  have 3: "fetchProductDetail ''/content/dam/luma'' ''S2'' False False catalog_network = None"
    by blast
  from fetch_failures_absorbed [of catalog_network "''/content/dam/luma''" "''S2''" False False] c ne
  have "fetchAllProducts ''/content/dam/luma'' False False catalog_network =
     [the item. item \<leftarrow> list_items \<lparr>productsContentFragmentModelList_items = Some [Some shoe, Some nameless, None, Some hat],
           productsModelList_items = None\<rparr>, has_sku_or_id item]"
    by blast
  with l have 4: "fetchAllProducts ''/content/dam/luma'' False False catalog_network = [shoe, hat]"
    by simp
  from 1 2 t 3 4 show ?thesis by simp
qed

section \<open>Properties of the recommendations\<close>

lemma set_fold_set_add: "set (foldl (\<lambda>acc k. set_add k acc) init ks) = set init \<union> set ks"
  by (induction ks arbitrary: init) (auto simp add: set_add_def)

lemma category_parts_empty: "category_parts [] = []"
  by (simp add: category_parts_def split_seps_def toLowerCase_def trim_def)

lemma cartCategories_step:
  "set (foldl (\<lambda>acc product.
              if truthy (li_category product)
              then foldl (\<lambda>acc' cat. set_add cat acc') acc (category_parts (the (li_category product)))
              else acc) init items) =
   set init \<union> (\<Union>li \<in> set items. line_item_categories li)"
proof (induction items arbitrary: init)
  case Nil
  then show ?case by simp
next
  case (Cons li items)
  have "set (if truthy (li_category li)
             then foldl (\<lambda>acc' cat. set_add cat acc') init (category_parts (the (li_category li)))
             else init) = set init \<union> line_item_categories li"
    by (cases "li_category li")
       (auto simp add: line_item_categories_def set_fold_set_add category_parts_empty)
  with Cons.IH show ?case by (simp add: Un_assoc)
qed

lemma set_cartCategories:
  "set (cartCategories cartData) = (\<Union>(k, li) \<in> set (products cartData). line_item_categories li)"
  by (auto simp add: cartCategories_def cartCategories_step)

lemma set_cartProductIds: "set (cartProductIds cartData) = fst ` set (products cartData)"
  by (simp add: cartProductIds_def set_fold_set_add)

lemma list_ex_member: "list_ex (\<lambda>c. c \<in> set ys) xs = (set xs \<inter> set ys \<noteq> {})"
  by (auto simp add: list_ex_iff)

lemma normalizeCat_eq: "normalizeCat = normalizeProductCat"
  by (rule ext) (simp add: normalizeCat_def normalizeProductCat_def)

lemma cart_recommendations_eq:
  "cart_recommendations allProducts cartData = take 5 (filter (passes_cart cartData) allProducts)"
proof -
  have "(\<lambda>product.
        (let pid = sku_or_id_or_empty product in
         if pid \<in> set (cartProductIds cartData) then False
         else
           (let productCats = filter (\<lambda>c. c \<noteq> [])
                  (map normalizeProductCat (case p_category product of Some cs \<Rightarrow> cs | None \<Rightarrow> []))
            in list_ex (\<lambda>c. c \<in> set (cartCategories cartData)) productCats))) = passes_cart cartData"
    by (rule ext) (simp add: passes_cart_def normalized_categories_def Let_def set_cartProductIds
        list_ex_member)
  then show ?thesis by (simp add: cart_recommendations_def)
qed

lemma pd_recs_eq: "pd_recs currentProduct allProducts = take 5 (filter (passes_pd currentProduct) allProducts)"
proof -
  have "(\<lambda>product.
           if sku_or_id product = sku_or_id currentProduct then False
           else
             (let productCategories = filter (\<lambda>c. c \<noteq> [])
                    (map normalizeCat (case p_category product of Some cs \<Rightarrow> cs | None \<Rightarrow> []))
              in list_ex (\<lambda>c. c \<in> set productCategories)
                   (filter (\<lambda>c. c \<noteq> [])
                     (map normalizeCat (case p_category currentProduct of Some cs \<Rightarrow> cs | None \<Rightarrow> []))))) =
        passes_pd currentProduct"
    by (rule ext) (auto simp add: passes_pd_def normalized_categories_def Let_def normalizeCat_eq
        list_ex_member)
  then show ?thesis by (simp add: pd_recs_def Let_def)
qed

lemma take_five_Nil: "(take 5 xs = []) = (xs = [])"
  by (simp add: take_eq_Nil)

lemma buildRecommendations_cart_eq:
  "buildRecommendations_cart allProducts cartData a l =
     (if filter (passes_cart cartData) allProducts = [] then None
      else Some (recommendations_section (take 5 (filter (passes_cart cartData) allProducts)) a l))"
  by (simp add: buildRecommendations_cart_def cart_recommendations_eq take_five_Nil Let_def)

lemma no_categories_no_pass:
  "p_category currentProduct = None \<or> p_category currentProduct = Some [] \<Longrightarrow>
   filter (passes_pd currentProduct) allProducts = []"
  by (auto simp add: passes_pd_def normalized_categories_def filter_empty_conv)

lemma buildRecommendations_pd_eq:
  "buildRecommendations_pd currentProduct allProducts a l =
     (if filter (passes_pd currentProduct) allProducts = [] then None
      else Some (recommendations_section (take 5 (filter (passes_pd currentProduct) allProducts)) a l))"
proof (cases "p_category currentProduct = None \<or> p_category currentProduct = Some []")
  case True
  from no_categories_no_pass [OF True] True show ?thesis
    by (auto simp add: buildRecommendations_pd_def)
next
  case False
  then show ?thesis
    by (auto simp add: buildRecommendations_pd_def pd_recs_eq take_five_Nil Let_def
        split: option.splits)
qed

lemma decorate_cart_none:
  "filter (passes_cart cartData) (fetchAllProducts folderHref a l net) = [] \<Longrightarrow>
   decorate_cart_recommendations folderHref a l net cartData container = container"
  by (simp add: decorate_cart_recommendations_def buildRecommendations_cart_eq append_if_present_def Let_def)

lemma listener_none:
  "filter (passes_cart cartData) allProducts = [] \<Longrightarrow>
   listener_recommendations folderHref allProducts a l cartData container =
     (if folderHref \<noteq> [] \<and> allProducts \<noteq> [] then tl container else container)"
  by (cases container)
     (simp_all add: listener_recommendations_def buildRecommendations_cart_eq append_if_present_def Let_def)

lemma decorate_pd_none:
  "fetchProductDetail folderHref sku a (includes_str ''/dam/luma3/'' folderHref) net = Some product \<Longrightarrow>
   folderHref \<noteq> [] \<Longrightarrow> sku \<noteq> [] \<Longrightarrow>
   filter (passes_pd product) (fetchAllProducts folderHref a (includes_str ''/dam/luma3/'' folderHref) net) = [] \<Longrightarrow>
   snd (decorate_pd folderHref (Some sku) a net s) =
     [Detail (snd (buildProductDetail product a (includes_str ''/dam/luma3/'' folderHref) s))]"
  by (simp add: decorate_pd_def buildRecommendations_pd_eq Let_def split: prod.splits)

lemma card_product_ids:
  "map card_product_id (map (\<lambda>p. buildRecommendationCard p a l) ps) = map sku_or_id_or_empty ps"
  by (simp add: buildRecommendationCard_def Let_def comp_def)

lemma card_titles:
  "map card_title (map (\<lambda>p. buildRecommendationCard p a l) ps) =
     map (\<lambda>p. display_name (p_name p)) ps"
  by (simp add: buildRecommendationCard_def Let_def comp_def)

text \<open>
  C2. For every candidate list, the recommendation builder of the cart block and the one
  of the product-detail block return \<open>null\<close> when no candidate passes the filter, and
  otherwise the section titled \<open>YOU MAY ALSO LIKE\<close> whose cards are, one for each and in
  the order of the source list, the first five (or fewer) passing candidates, each card
  carrying the SKU-or-id and the display name of its candidate. A candidate passes when
  its SKU-or-id is not in the cart (is not the current product's) and it shares a
  normalized category with the target set (for the cart, the union of the categories of
  its line items; for a product, its own normalized categories). When no candidate
  passes, the callers append nothing: \<open>decorate\<close> of the cart block leaves the container
  as it is, the \<open>dataLayerUpdated\<close> listener only removes the section shown before, and
  \<open>decorate\<close> of the product-detail block leaves the detail view as the only child of the
  block.
\<close>

theorem recommendations_filter:
  "buildRecommendations_cart allProducts cartData isAuthor isLegacy =
     (if filter (passes_cart cartData) allProducts = [] then None
      else Some \<lparr>sec_title = ''YOU MAY ALSO LIKE'',
                  sec_cards = map (\<lambda>p. buildRecommendationCard p isAuthor isLegacy)
                    (take 5 (filter (passes_cart cartData) allProducts))\<rparr>) \<and>
   buildRecommendations_pd currentProduct allProducts isAuthor isLegacy =
     (if filter (passes_pd currentProduct) allProducts = [] then None
      else Some \<lparr>sec_title = ''YOU MAY ALSO LIKE'',
                  sec_cards = map (\<lambda>p. buildRecommendationCard p isAuthor isLegacy)
                    (take 5 (filter (passes_pd currentProduct) allProducts))\<rparr>) \<and>
   map card_product_id (case buildRecommendations_cart allProducts cartData isAuthor isLegacy of
                          None \<Rightarrow> [] | Some sec \<Rightarrow> sec_cards sec) =
     map sku_or_id_or_empty (take 5 (filter (passes_cart cartData) allProducts)) \<and>
   map card_title (case buildRecommendations_cart allProducts cartData isAuthor isLegacy of
                     None \<Rightarrow> [] | Some sec \<Rightarrow> sec_cards sec) =
     map (\<lambda>p. display_name (p_name p)) (take 5 (filter (passes_cart cartData) allProducts)) \<and>
   map card_product_id (case buildRecommendations_pd currentProduct allProducts isAuthor isLegacy of
                          None \<Rightarrow> [] | Some sec \<Rightarrow> sec_cards sec) =
     map sku_or_id_or_empty (take 5 (filter (passes_pd currentProduct) allProducts)) \<and>
   map card_title (case buildRecommendations_pd currentProduct allProducts isAuthor isLegacy of
                     None \<Rightarrow> [] | Some sec \<Rightarrow> sec_cards sec) =
     map (\<lambda>p. display_name (p_name p)) (take 5 (filter (passes_pd currentProduct) allProducts)) \<and>
   (filter (passes_cart cartData) (fetchAllProducts folderHref isAuthor isLegacy net) = [] \<longrightarrow>
      decorate_cart_recommendations folderHref isAuthor isLegacy net cartData container = container) \<and>
   (filter (passes_cart cartData) allProducts = [] \<longrightarrow>
      listener_recommendations folderHref allProducts isAuthor isLegacy cartData container =
        (if folderHref \<noteq> [] \<and> allProducts \<noteq> [] then tl container else container)) \<and>
   (folderHref \<noteq> [] \<and> sku \<noteq> [] \<and>
    fetchProductDetail folderHref sku isAuthor (includes_str ''/dam/luma3/'' folderHref) net =
      Some currentProduct \<and>
    filter (passes_pd currentProduct)
      (fetchAllProducts folderHref isAuthor (includes_str ''/dam/luma3/'' folderHref) net) = [] \<longrightarrow>
      snd (decorate_pd folderHref (Some sku) isAuthor net s) =
        [Detail (snd (buildProductDetail currentProduct isAuthor
                   (includes_str ''/dam/luma3/'' folderHref) s))]) \<and>
   set (cartCategories cartData) =
     (\<Union>(k, li) \<in> set (products cartData). line_item_categories li)"
proof -
  have 1: "buildRecommendations_cart allProducts cartData isAuthor isLegacy =
     (if filter (passes_cart cartData) allProducts = [] then None
      else Some \<lparr>sec_title = ''YOU MAY ALSO LIKE'',
                  sec_cards = map (\<lambda>p. buildRecommendationCard p isAuthor isLegacy)
                    (take 5 (filter (passes_cart cartData) allProducts))\<rparr>)"
    by (simp add: buildRecommendations_cart_eq recommendations_section_def)
  have 2: "buildRecommendations_pd currentProduct allProducts isAuthor isLegacy =
     (if filter (passes_pd currentProduct) allProducts = [] then None
      else Some \<lparr>sec_title = ''YOU MAY ALSO LIKE'',
                  sec_cards = map (\<lambda>p. buildRecommendationCard p isAuthor isLegacy)
                    (take 5 (filter (passes_pd currentProduct) allProducts))\<rparr>)"
    by (simp add: buildRecommendations_pd_eq recommendations_section_def)
  have c1: "map card_product_id (case buildRecommendations_cart allProducts cartData isAuthor isLegacy of
                          None \<Rightarrow> [] | Some sec \<Rightarrow> sec_cards sec) =
     map sku_or_id_or_empty (take 5 (filter (passes_cart cartData) allProducts))"
    unfolding 1 using card_product_ids [of isAuthor isLegacy] by simp
  have c2: "map card_title (case buildRecommendations_cart allProducts cartData isAuthor isLegacy of
                     None \<Rightarrow> [] | Some sec \<Rightarrow> sec_cards sec) =
     map (\<lambda>p. display_name (p_name p)) (take 5 (filter (passes_cart cartData) allProducts))"
    unfolding 1 using card_titles [of isAuthor isLegacy] by simp
  have c3: "map card_product_id (case buildRecommendations_pd currentProduct allProducts isAuthor isLegacy of
                          None \<Rightarrow> [] | Some sec \<Rightarrow> sec_cards sec) =
     map sku_or_id_or_empty (take 5 (filter (passes_pd currentProduct) allProducts))"
    unfolding 2 using card_product_ids [of isAuthor isLegacy] by simp
  have c4: "map card_title (case buildRecommendations_pd currentProduct allProducts isAuthor isLegacy of
                     None \<Rightarrow> [] | Some sec \<Rightarrow> sec_cards sec) =
     map (\<lambda>p. display_name (p_name p)) (take 5 (filter (passes_pd currentProduct) allProducts))"
    unfolding 2 using card_titles [of isAuthor isLegacy] by simp
  have 3: "filter (passes_cart cartData) (fetchAllProducts folderHref isAuthor isLegacy net) = [] \<longrightarrow>
      decorate_cart_recommendations folderHref isAuthor isLegacy net cartData container = container"
    using decorate_cart_none by blast
  have 4: "filter (passes_cart cartData) allProducts = [] \<longrightarrow>
      listener_recommendations folderHref allProducts isAuthor isLegacy cartData container =
        (if folderHref \<noteq> [] \<and> allProducts \<noteq> [] then tl container else container)"
    using listener_none by blast
  have 5: "folderHref \<noteq> [] \<and> sku \<noteq> [] \<and>
    fetchProductDetail folderHref sku isAuthor (includes_str ''/dam/luma3/'' folderHref) net =
      Some currentProduct \<and>
    filter (passes_pd currentProduct)
      (fetchAllProducts folderHref isAuthor (includes_str ''/dam/luma3/'' folderHref) net) = [] \<longrightarrow>
      snd (decorate_pd folderHref (Some sku) isAuthor net s) =
        [Detail (snd (buildProductDetail currentProduct isAuthor
                   (includes_str ''/dam/luma3/'' folderHref) s))]"
    using decorate_pd_none by blast
  from 1 2 c1 c2 c3 c4 3 4 5 set_cartCategories [of cartData]
  show ?thesis by (intro conjI)
qed

theorem recommendations_filter_witness:
  "buildRecommendations_cart [shoe, hat, sandal, shoe_A] example_cart False False =
     Some \<lparr>sec_title = ''YOU MAY ALSO LIKE'',
            sec_cards = [\<lparr>card_product_id = ''S3'', card_clickable = True, card_picture = None,
                           card_category = ''Shoes / Summer'', card_title = ''Sandal''\<rparr>]\<rparr> \<and>
   map card_product_id
     (case buildRecommendations_cart (replicate 6 sandal @ [shoe_A]) example_cart False False of
        None \<Rightarrow> [] | Some sec \<Rightarrow> sec_cards sec) = replicate 5 ''S3'' \<and>
   buildRecommendations_pd sandal [shoe, hat, sandal, shoe_A] False False =
     Some \<lparr>sec_title = ''YOU MAY ALSO LIKE'',
            sec_cards = [\<lparr>card_product_id = ''A'', card_clickable = True, card_picture = None,
                           card_category = ''Shoes / Summer'', card_title = ''Trail Shoe''\<rparr>]\<rparr> \<and>
   buildRecommendations_cart [shoe, hat] example_cart False False = None \<and>
   decorate_cart_recommendations ''/content/dam/luma'' False False catalog_network example_cart [] = [] \<and>
   snd (decorate_pd ''/content/dam/luma'' (Some ''S1'') False catalog_network empty_page) =
     [Detail (snd (buildProductDetail shoe False False empty_page))]"
proof -
  have i: "includes_str ''/dam/luma3/'' ''/content/dam/luma'' = False" by code_simp
  have q1: "filter (passes_cart example_cart) [shoe, hat, sandal, shoe_A] = [sandal]" by code_simp
  have q2: "filter (passes_cart example_cart) (replicate 6 sandal @ [shoe_A]) = replicate 6 sandal"
    by code_simp
  have q3: "filter (passes_pd sandal) [shoe, hat, sandal, shoe_A] = [shoe_A]" by code_simp
  have q4: "filter (passes_cart example_cart) [shoe, hat] = []" by code_simp
  have q5: "filter (passes_cart example_cart)
      (fetchAllProducts ''/content/dam/luma'' False False catalog_network) = []" by code_simp
  have q6: "fetchProductDetail ''/content/dam/luma'' ''S1'' False False catalog_network = Some shoe"
    by code_simp
  have q7: "filter (passes_pd shoe)
      (fetchAllProducts ''/content/dam/luma'' False False catalog_network) = []" by code_simp
  have k1: "map (\<lambda>p. buildRecommendationCard p False False) [sandal] =
      [\<lparr>card_product_id = ''S3'', card_clickable = True, card_picture = None,
         card_category = ''Shoes / Summer'', card_title = ''Sandal''\<rparr>]" by code_simp
  have k2: "map (\<lambda>p. buildRecommendationCard p False False) [shoe_A] =
      [\<lparr>card_product_id = ''A'', card_clickable = True, card_picture = None,
         card_category = ''Shoes / Summer'', card_title = ''Trail Shoe''\<rparr>]" by code_simp
  have k3: "map sku_or_id_or_empty (take 5 (replicate 6 sandal)) = replicate 5 ''S3''" by code_simp
  have 1: "buildRecommendations_cart [shoe, hat, sandal, shoe_A] example_cart False False =
     Some \<lparr>sec_title = ''YOU MAY ALSO LIKE'',
            sec_cards = [\<lparr>card_product_id = ''S3'', card_clickable = True, card_picture = None,
                           card_category = ''Shoes / Summer'', card_title = ''Sandal''\<rparr>]\<rparr>"
    using recommendations_filter [of "[shoe, hat, sandal, shoe_A]" example_cart False False] q1 k1
    by simp
  have 2: "map card_product_id
     (case buildRecommendations_cart (replicate 6 sandal @ [shoe_A]) example_cart False False of
        None \<Rightarrow> [] | Some sec \<Rightarrow> sec_cards sec) = replicate 5 ''S3''"
    using recommendations_filter [of "replicate 6 sandal @ [shoe_A]" example_cart False False]
    unfolding q2 k3 by blast
  have 3: "buildRecommendations_pd sandal [shoe, hat, sandal, shoe_A] False False =
     Some \<lparr>sec_title = ''YOU MAY ALSO LIKE'',
            sec_cards = [\<lparr>card_product_id = ''A'', card_clickable = True, card_picture = None,
                           card_category = ''Shoes / Summer'', card_title = ''Trail Shoe''\<rparr>]\<rparr>"
    using recommendations_filter [of "[shoe, hat, sandal, shoe_A]" example_cart False False sandal] q3 k2
    by simp
  have 4: "buildRecommendations_cart [shoe, hat] example_cart False False = None"
    using recommendations_filter [of "[shoe, hat]" example_cart False False] q4 by simp
  have 5: "decorate_cart_recommendations ''/content/dam/luma'' False False catalog_network example_cart [] = []"
    using recommendations_filter [of "[]" example_cart False False shoe "''/content/dam/luma''" catalog_network "[]"] q5
    by simp
  have 6: "snd (decorate_pd ''/content/dam/luma'' (Some ''S1'') False catalog_network empty_page) =
     [Detail (snd (buildProductDetail shoe False False empty_page))]"
    using recommendations_filter [of "[]" example_cart False False shoe "''/content/dam/luma''" catalog_network "[]"
        "''S1''" empty_page] q6 q7 i
    by simp
  from 1 2 3 4 5 6 show ?thesis by (intro conjI)
qed

section \<open>Properties of the product-detail view\<close>

lemma buildProductDetail_state:
  "fst (buildProductDetail product a l s) =
     (if updateDataLayer_is_function s
      then s\<lparr>pd_dataLayer := (pd_dataLayer s)\<lparr>dl_product := Some (productData_of product a l)\<rparr>,
             pd_trace := pd_trace s @ [Call_updateDataLayer (PartialProduct (productData_of product a l)) None]\<rparr>
      else s\<lparr>pd_trace := pd_trace s @ [Call_console_warn]\<rparr>)"
  by (simp add: buildProductDetail_def Let_def)

lemma productData_id: "pd_id (productData_of product a l) =
     (if truthy (p_id product) then the (p_id product)
      else if truthy (p_sku product) then the (p_sku product) else [])"
  by (simp add: productData_of_def Let_def string_or_empty_def)

lemma productData_name: "pd_name (productData_of product a l) =
     (if trim (text_before_first_comma (p_name product)) \<noteq> []
      then trim (text_before_first_comma (p_name product))
      else (case p_name product of None \<Rightarrow> [] | Some n \<Rightarrow> n))"
  by (cases "p_name product")
     (auto simp add: productData_of_def Let_def name_or_empty_def display_name_def
        text_before_first_comma_def trim_def)

lemma productData_price: "pd_price (productData_of product a l) =
     (case p_price product of Some (Num r) \<Rightarrow> Num r | _ \<Rightarrow> Num 0)"
  by (auto simp add: productData_of_def Let_def or_zero_def split: option.splits jsnum.splits)

lemma productData_image: "pd_image (productData_of product a l) =
     (case usable (getProductImageUrl (Some product) a l) of Some url \<Rightarrow> url | None \<Rightarrow> []) \<and>
   pd_thumbnail (productData_of product a l) = pd_image (productData_of product a l)"
  by (cases "getProductImageUrl (Some product) a l")
     (auto simp add: productData_of_def Let_def string_or_empty_def usable_def)

text \<open>
  C10, as the specification has it: building the view always writes the product object,
  with the name reduced to the text before the first comma. The write stands behind
  \<open>typeof window.updateDataLayer === "function"\<close>: without that function only a warning is
  logged. And the name is \<open>displayName || name || ""\<close>: for the name \<open>",Blue"\<close> the text
  before the first comma is empty, and the whole name is written.
\<close>

theorem product_write_guarded_and_name_fallback:
  "fst (buildProductDetail shoe False False (empty_page\<lparr>updateDataLayer_is_function := False\<rparr>)) =
     empty_page\<lparr>updateDataLayer_is_function := False, pd_trace := [Call_console_warn]\<rparr> \<and>
   pd_trace (fst (buildProductDetail (shoe\<lparr>p_name := Some '',Blue''\<rparr>) False False empty_page)) =
     [Call_updateDataLayer
        (PartialProduct
          \<lparr>pd_id = ''p1'', pd_sku = ''S1'', pd_name = '',Blue'', pd_price = Num 20,
             pd_category = ''Running Shoes'', pd_description = ''Light.'',
             pd_image = ''https://img.example/shoe.jpg'',
             pd_thumbnail = ''https://img.example/shoe.jpg''\<rparr>)
        None] \<and>
   text_before_first_comma (Some '',Blue'') = []"
  by code_simp

text \<open>
  C10, amended. When \<open>window.updateDataLayer\<close> is a function, building the product-detail
  view calls it once with \<open>{ product: productData }\<close> and no merge flag (the cart handlers
  pass \<open>false\<close>), which stores the object under the key \<open>product\<close>; otherwise nothing is
  written and a warning is logged. In \<open>productData\<close> the id is the product's id, else its
  SKU, else empty; the name is the trimmed text before the first comma, or the whole name
  when that text is empty; the price is the product's price, or 0 when it is absent,
  zero or not a number; image and thumbnail are the resolved image URL, or the empty
  string when there is none. \<open>decorate\<close> builds the view, with exactly this effect on the
  data layer, for the product its fetch returned.
\<close>

theorem product_data_written:
  "fst (buildProductDetail product isAuthor isLegacy s) =
     (if updateDataLayer_is_function s
      then s\<lparr>pd_dataLayer := (pd_dataLayer s)\<lparr>dl_product := Some (productData_of product isAuthor isLegacy)\<rparr>,
             pd_trace := pd_trace s @
               [Call_updateDataLayer (PartialProduct (productData_of product isAuthor isLegacy)) None]\<rparr>
      else s\<lparr>pd_trace := pd_trace s @ [Call_console_warn]\<rparr>) \<and>
   pd_id (productData_of product isAuthor isLegacy) =
     (if truthy (p_id product) then the (p_id product)
      else if truthy (p_sku product) then the (p_sku product) else []) \<and>
   pd_name (productData_of product isAuthor isLegacy) =
     (if trim (text_before_first_comma (p_name product)) \<noteq> []
      then trim (text_before_first_comma (p_name product))
      else (case p_name product of None \<Rightarrow> [] | Some n \<Rightarrow> n)) \<and>
   pd_price (productData_of product isAuthor isLegacy) =
     (case p_price product of Some (Num r) \<Rightarrow> Num r | _ \<Rightarrow> Num 0) \<and>
   pd_image (productData_of product isAuthor isLegacy) =
     (case usable (getProductImageUrl (Some product) isAuthor isLegacy) of
        Some url \<Rightarrow> url | None \<Rightarrow> []) \<and>
   pd_thumbnail (productData_of product isAuthor isLegacy) =
     pd_image (productData_of product isAuthor isLegacy) \<and>
   (folderHref \<noteq> [] \<and> sku \<noteq> [] \<and>
    fetchProductDetail folderHref sku isAuthor (includes_str ''/dam/luma3/'' folderHref) net =
      Some product \<longrightarrow>
      fst (decorate_pd folderHref (Some sku) isAuthor net s) =
        fst (buildProductDetail product isAuthor (includes_str ''/dam/luma3/'' folderHref) s))"
proof -
  have d: "folderHref \<noteq> [] \<and> sku \<noteq> [] \<and>
    fetchProductDetail folderHref sku isAuthor (includes_str ''/dam/luma3/'' folderHref) net =
      Some product \<longrightarrow>
      fst (decorate_pd folderHref (Some sku) isAuthor net s) =
        fst (buildProductDetail product isAuthor (includes_str ''/dam/luma3/'' folderHref) s)"
    by (simp add: decorate_pd_def Let_def split: prod.splits)
  from buildProductDetail_state [of product isAuthor isLegacy s]
    productData_id [of product isAuthor isLegacy] productData_name [of product isAuthor isLegacy]
    productData_price [of product isAuthor isLegacy] productData_image [of product isAuthor isLegacy] d
  show ?thesis by (intro conjI) simp_all
qed

theorem product_data_written_witness:
  "pd_trace (fst (buildProductDetail shoe False False empty_page)) =
     [Call_updateDataLayer
        (PartialProduct
          \<lparr>pd_id = ''p1'', pd_sku = ''S1'', pd_name = ''Trail Shoe'', pd_price = Num 20,
             pd_category = ''Running Shoes'', pd_description = ''Light.'',
             pd_image = ''https://img.example/shoe.jpg'',
             pd_thumbnail = ''https://img.example/shoe.jpg''\<rparr>)
        None] \<and>
   dl_product (pd_dataLayer (fst (buildProductDetail shoe False False empty_page))) =
     Some (productData_of shoe False False) \<and>
   fetchProductDetail ''/content/dam/luma'' ''S1'' False False catalog_network = Some shoe \<and>
   fst (decorate_pd ''/content/dam/luma'' (Some ''S1'') False catalog_network empty_page) =
     fst (buildProductDetail shoe False False empty_page)"
proof -
  have p: "productData_of shoe False False =
     \<lparr>pd_id = ''p1'', pd_sku = ''S1'', pd_name = ''Trail Shoe'', pd_price = Num 20,
        pd_category = ''Running Shoes'', pd_description = ''Light.'',
        pd_image = ''https://img.example/shoe.jpg'',
        pd_thumbnail = ''https://img.example/shoe.jpg''\<rparr>"
    by code_simp
  have e: "updateDataLayer_is_function empty_page" "pd_trace empty_page = []"
    by (simp_all add: empty_page_def)
  have i: "includes_str ''/dam/luma3/'' ''/content/dam/luma'' = False" by code_simp
  have f: "fetchProductDetail ''/content/dam/luma'' ''S1'' False False catalog_network = Some shoe"
    by code_simp
  from product_data_written [of shoe False False empty_page "''/content/dam/luma''" "''S1''" catalog_network]
    p e i f
  show ?thesis by simp
qed

end
